theory Spec2Isabelle
  imports Complex_Main "HOL-Library.AList"
begin

section \<open>JavaScript numbers\<close>

text \<open>
  The arithmetic of the engine runs on JavaScript numbers, the IEEE 754 doubles: every
  sum, product and quotient is the exact result rounded to the nearest double (ties to the
  even mantissa), a division by zero does not raise (\<open>0 / 0\<close> is \<open>NaN\<close>, \<open>x / 0\<close> is an
  infinity), and every comparison with \<open>NaN\<close> is false. A finite number is the real it
  stands for, and the numbers that enter the arithmetic (confidences, sentiment scores)
  are doubles themselves; the sign of zero is not modelled (the only divisors in the
  modelled code are a running sum that starts at \<open>+0\<close>, the literal \<open>100\<close> and an array
  length).
\<close>

datatype jsnum = Fin real | PInf | NInf | NaN

text \<open>The integer nearest to \<open>y\<close>, the even one of two that are equally near.\<close>

definition round_half_even :: "real \<Rightarrow> int" where
  "round_half_even y =
     (let f = \<lfloor>y\<rfloor>
      in if y - of_int f < 1 / 2 then f
         else if 1 / 2 < y - of_int f then f + 1
         else if even f then f else f + 1)"

text \<open>
  The power of two at the lower end of the binade of \<open>a > 0\<close>, between the smallest normal
  number \<open>2^-1022\<close> and \<open>2^1023\<close>: found by doubling or halving from 1.
\<close>

fun binade_up :: "nat \<Rightarrow> real \<Rightarrow> real \<Rightarrow> real" where
  "binade_up 0 a p = p"
| "binade_up (Suc n) a p = (if 2 * p \<le> a then binade_up n a (2 * p) else p)"

fun binade_down :: "nat \<Rightarrow> real \<Rightarrow> real \<Rightarrow> real" where
  "binade_down 0 a p = p"
| "binade_down (Suc n) a p = (if a < p then binade_down n a (p / 2) else p)"

definition binade :: "real \<Rightarrow> real" where
  "binade a = (if 1 \<le> a then binade_up 1023 a 1 else binade_down 1022 a 1)"

text \<open>
  Rounding to a double: the doubles of a binade are the multiples of its unit in the last
  place, \<open>2^-52\<close> times its lower end (so the subnormal numbers are the multiples of
  \<open>2^-1074\<close>); a result of \<open>2^1024\<close> or more is an infinity.
\<close>

definition rnd :: "real \<Rightarrow> jsnum" where
  "rnd x =
     (if x = 0 then Fin 0
      else let a = \<bar>x\<bar>;
               u = binade a / 2 ^ 52;
               v = of_int (round_half_even (a / u)) * u
           in if 2 ^ 1024 \<le> v then (if 0 < x then PInf else NInf)
              else Fin (if 0 < x then v else - v))"

fun js_neg :: "jsnum \<Rightarrow> jsnum" where
  "js_neg (Fin a) = Fin (- a)"
| "js_neg PInf = NInf"
| "js_neg NInf = PInf"
| "js_neg NaN = NaN"

fun js_add :: "jsnum \<Rightarrow> jsnum \<Rightarrow> jsnum" where
  "js_add NaN b = NaN"
| "js_add a NaN = NaN"
| "js_add (Fin a) (Fin b) = rnd (a + b)"
| "js_add PInf NInf = NaN"
| "js_add NInf PInf = NaN"
| "js_add PInf b = PInf"
| "js_add a PInf = PInf"
| "js_add NInf b = NInf"
| "js_add a NInf = NInf"

definition js_sub :: "jsnum \<Rightarrow> jsnum \<Rightarrow> jsnum" where
  "js_sub a b = js_add a (js_neg b)"

fun js_mul :: "jsnum \<Rightarrow> jsnum \<Rightarrow> jsnum" where
  "js_mul NaN b = NaN"
| "js_mul a NaN = NaN"
| "js_mul (Fin a) (Fin b) = rnd (a * b)"
| "js_mul (Fin a) PInf = (if a = 0 then NaN else if 0 < a then PInf else NInf)"
| "js_mul (Fin a) NInf = (if a = 0 then NaN else if 0 < a then NInf else PInf)"
| "js_mul PInf (Fin b) = (if b = 0 then NaN else if 0 < b then PInf else NInf)"
| "js_mul NInf (Fin b) = (if b = 0 then NaN else if 0 < b then NInf else PInf)"
| "js_mul PInf PInf = PInf"
| "js_mul PInf NInf = NInf"
| "js_mul NInf PInf = NInf"
| "js_mul NInf NInf = PInf"

fun js_div :: "jsnum \<Rightarrow> jsnum \<Rightarrow> jsnum" where
  "js_div NaN b = NaN"
| "js_div a NaN = NaN"
| "js_div (Fin a) (Fin b) =
     (if b \<noteq> 0 then rnd (a / b)
      else if a = 0 then NaN else if 0 < a then PInf else NInf)"
| "js_div (Fin a) PInf = Fin 0"
| "js_div (Fin a) NInf = Fin 0"
| "js_div PInf (Fin b) = (if 0 \<le> b then PInf else NInf)"
| "js_div NInf (Fin b) = (if 0 \<le> b then NInf else PInf)"
| "js_div PInf PInf = NaN"
| "js_div PInf NInf = NaN"
| "js_div NInf PInf = NaN"
| "js_div NInf NInf = NaN"

text \<open>\<open>a > b\<close>; \<open>a < b\<close> is \<open>b > a\<close>.\<close>

fun js_gt :: "jsnum \<Rightarrow> jsnum \<Rightarrow> bool" where
  "js_gt NaN b = False"
| "js_gt a NaN = False"
| "js_gt (Fin a) (Fin b) = (b < a)"
| "js_gt PInf PInf = False"
| "js_gt PInf b = True"
| "js_gt NInf b = False"
| "js_gt (Fin a) PInf = False"
| "js_gt (Fin a) NInf = True"

definition js_lt :: "jsnum \<Rightarrow> jsnum \<Rightarrow> bool" where
  "js_lt a b = js_gt b a"

text \<open>\<open>Math.abs\<close> and \<open>Math.min\<close> (which is \<open>NaN\<close> as soon as one argument is).\<close>

fun js_abs :: "jsnum \<Rightarrow> jsnum" where
  "js_abs (Fin a) = Fin \<bar>a\<bar>"
| "js_abs PInf = PInf"
| "js_abs NInf = PInf"
| "js_abs NaN = NaN"

fun js_min :: "jsnum \<Rightarrow> jsnum \<Rightarrow> jsnum" where
  "js_min NaN b = NaN"
| "js_min a NaN = NaN"
| "js_min a b = (if js_lt b a then b else a)"

section \<open>The TradingSignal model\<close>

text \<open>
  \<open>models/tradingSignal.model.js\<close>: the columns of a trading signal. The enumerated
  columns hold strings (the code compares them with \<open>===\<close>); an optional column is an
  \<open>option\<close>. The attributes passed to \<open>TradingSignal.create\<close> are the columns without
  the primary key, which the model fills with a fresh UUID.
\<close>

datatype json = JNum jsnum | JStr string | JArr "json list"

record signal_attrs =
  symbol :: string
  action :: string
  confidence :: jsnum
  price :: "jsnum option"
  targetPrice :: "jsnum option"
  stopLoss :: "jsnum option"
  timeframe :: string
  source :: string
  status :: "string option"
  expiresAt :: "int option"
  metadata :: "(string \<times> json) list"

record signal = signal_attrs +
  id' :: string

definition ACTIONS :: "string list" where
  "ACTIONS = [''buy'', ''sell'', ''hold'']"

definition SOURCES :: "string list" where
  "SOURCES = [''CYBER_METRICS'', ''TWITTER_MONITOR'', ''DEEPSEEK_AI'', ''GROK_ENGINE'']"

definition STATUSES :: "string list" where
  "STATUSES = [''pending'', ''executed'', ''expired'', ''cancelled'']"

text \<open>\<open>validate: { min: 0, max: 100 }\<close> on the confidence column.\<close>

definition confidence_in_range :: "jsnum \<Rightarrow> bool" where
  "confidence_in_range c = (case c of Fin r \<Rightarrow> 0 \<le> r \<and> r \<le> 100 | _ \<Rightarrow> False)"

text \<open>
  Modelled from the spec: the engine that enforces the declared schema (the ORM's
  \<open>create\<close> with its validators and the database's enumerated column types) is a
  dependency and not part of the sources. Following the specification of the ingest
  interface, a signal is rejected with a validation error when its confidence is out of
  the declared range or its action, source or status is not a member of the declared
  enumeration. The bounds and the enumerations are those of the model file.
\<close>

definition validate :: "'a signal_attrs_scheme \<Rightarrow> bool" where
  "validate a \<longleftrightarrow>
     confidence_in_range (confidence a) \<and>
     action a \<in> set ACTIONS \<and>
     source a \<in> set SOURCES \<and>
     (case status a of None \<Rightarrow> True | Some s \<Rightarrow> s \<in> set STATUSES)"

section \<open>The signal store\<close>

text \<open>
  The state the operations work on: the rows of the signals table and the outputs the
  UUID generator is still going to produce. Thrown JavaScript errors are values;
  \<open>Rethrown p e\<close> is \<open>new Error(p + e.message)\<close>, the way every module wraps the error it
  caught.
\<close>

record world =
  rows :: "signal list"
  uuids :: "nat \<Rightarrow> string"

datatype error =
    SequelizeValidationError
  | SequelizeUniqueConstraintError
  | Error string
  | Rethrown string error

definition uuidv4 :: "world \<Rightarrow> string \<times> world" where
  "uuidv4 w = (uuids w 0, w\<lparr>uuids := (\<lambda>n. uuids w (Suc n))\<rparr>)"

definition findByPk :: "string \<Rightarrow> world \<Rightarrow> signal option" where
  "findByPk pk w = find (\<lambda>r. id' r = pk) (rows w)"

text \<open>
  \<open>TradingSignal.create(attrs)\<close>: builds the instance (drawing the primary key and
  applying the default status \<open>pending\<close>), validates it and inserts it. The primary key is
  unique in the table. The store keeps the numbers as they were given: the rounding of the
  column type \<open>DECIMAL(5,2)\<close> is not modelled.
\<close>

definition TradingSignal_create :: "signal_attrs \<Rightarrow> world \<Rightarrow> (error + signal) \<times> world" where
  "TradingSignal_create a w =
     (let (i, w1) = uuidv4 w;
          s = \<lparr> symbol = symbol a, action = action a, confidence = confidence a,
                price = price a, targetPrice = targetPrice a, stopLoss = stopLoss a,
                timeframe = timeframe a, source = source a,
                status = (case status a of None \<Rightarrow> Some ''pending'' | Some t \<Rightarrow> Some t),
                expiresAt = expiresAt a, metadata = metadata a, id' = i \<rparr>
      in if \<not> validate a then (Inl SequelizeValidationError, w1)
         else if find (\<lambda>r. id' r = i) (rows w1) \<noteq> None
           then (Inl SequelizeUniqueConstraintError, w1)
         else (Inr s, w1\<lparr>rows := rows w1 @ [s]\<rparr>))"

text \<open>\<open>signal.update(values)\<close>: writes the changed instance to the rows with its key.\<close>

definition signal_update :: "signal \<Rightarrow> world \<Rightarrow> world" where
  "signal_update s w = w\<lparr>rows := map (\<lambda>r. if id' r = id' s then s else r) (rows w)\<rparr>"

section \<open>GROK\_ENGINE: the weighted decision\<close>

text \<open>
  \<open>GrokEngine.analyzeMarket\<close>, the loop over the collected signals: each signal weighs
  \<open>confidence / 100\<close>, added to the total and to the weight of its action.
\<close>

definition weigh :: "signal \<Rightarrow> jsnum \<times> jsnum \<times> jsnum \<Rightarrow> jsnum \<times> jsnum \<times> jsnum" where
  "weigh sg acc =
     (case acc of (buyWeight, sellWeight, totalWeight) \<Rightarrow>
        let weight = js_div (confidence sg) (Fin 100);
            totalWeight = js_add totalWeight weight
        in if action sg = ''buy'' then (js_add buyWeight weight, sellWeight, totalWeight)
           else if action sg = ''sell'' then (buyWeight, js_add sellWeight weight, totalWeight)
           else (buyWeight, sellWeight, totalWeight))"

record fused =
  fused_action :: string
  fused_confidence :: jsnum
  buyWeight :: jsnum
  sellWeight :: jsnum
  holdWeight :: jsnum

text \<open>The normalisation and the choice of the final action.\<close>

definition weighted_decision :: "signal list \<Rightarrow> fused" where
  "weighted_decision signals =
     (case fold weigh signals (Fin 0, Fin 0, Fin 0) of (bw, sw, totalWeight) \<Rightarrow>
        let buyWeight = js_div bw totalWeight;
            sellWeight = js_div sw totalWeight;
            holdWeight = js_sub (js_sub (Fin 1) buyWeight) sellWeight
        in if js_gt buyWeight sellWeight \<and> js_gt buyWeight holdWeight
           then \<lparr> fused_action = ''buy'', fused_confidence = js_mul buyWeight (Fin 100),
                  buyWeight = buyWeight, sellWeight = sellWeight, holdWeight = holdWeight \<rparr>
           else if js_gt sellWeight buyWeight \<and> js_gt sellWeight holdWeight
           then \<lparr> fused_action = ''sell'', fused_confidence = js_mul sellWeight (Fin 100),
                  buyWeight = buyWeight, sellWeight = sellWeight, holdWeight = holdWeight \<rparr>
           else \<lparr> fused_action = ''hold'', fused_confidence = js_mul holdWeight (Fin 100),
                  buyWeight = buyWeight, sellWeight = sellWeight, holdWeight = holdWeight \<rparr>)"

text \<open>
  The collection of the valid signals. The three source modules have been called before;
  their answers are inputs here: the answer of CYBER\_METRICS (a signal, or \<open>None\<close> for an
  answer that is no signal), the signals TWITTER\_MONITOR returned, and the \<open>signalId\<close>
  of the DEEPSEEK\_AI pattern analysis when it has one. An empty id is falsy.
\<close>

definition collect_signals ::
    "string \<Rightarrow> signal option \<Rightarrow> signal list \<Rightarrow> string option \<Rightarrow> world \<Rightarrow> signal list" where
  "collect_signals smb cyberMetricsSignal twitterSignals patternSignalId w =
     (let twitterSignal = find (\<lambda>sg. symbol sg = smb) twitterSignals
      in (case cyberMetricsSignal of
            Some c \<Rightarrow> if id' c \<noteq> [] then [c] else []
          | None \<Rightarrow> []) @
         (case twitterSignal of
            Some t \<Rightarrow> if id' t \<noteq> [] then [t] else []
          | None \<Rightarrow> []) @
         (case patternSignalId of
            Some pid \<Rightarrow>
              if pid \<noteq> [] then (case findByPk pid w of Some p \<Rightarrow> [p] | None \<Rightarrow> []) else []
          | None \<Rightarrow> []))"

text \<open>
  The answer of \<open>analyzeMarket\<close>: \<open>{success: false, message}\<close> or
  \<open>{success: true, action, confidence, signalId, sourceSignals}\<close>.
\<close>

datatype analysis =
    Unsuccessful string
  | Successful string jsnum string nat

definition grok_attrs :: "int \<Rightarrow> string \<Rightarrow> signal list \<Rightarrow> signal \<Rightarrow> fused \<Rightarrow> signal_attrs" where
  "grok_attrs now smb signals first f =
     \<lparr> symbol = smb, action = fused_action f, confidence = fused_confidence f,
       price = price first, targetPrice = None, stopLoss = None,
       timeframe = ''12h'', source = ''GROK_ENGINE'', status = Some ''pending'',
       expiresAt = Some (now + 12 * 60 * 60 * 1000),
       metadata =
         [(''signalSources'', JArr (map (\<lambda>sg. JStr (source sg)) signals)),
          (''signalIds'', JArr (map (\<lambda>sg. JStr (id' sg)) signals)),
          (''buyWeight'', JNum (buyWeight f)),
          (''sellWeight'', JNum (sellWeight f)),
          (''holdWeight'', JNum (holdWeight f))] \<rparr>"

definition fuse :: "int \<Rightarrow> string \<Rightarrow> signal list \<Rightarrow> world \<Rightarrow> (error + analysis) \<times> world" where
  "fuse now smb signals w =
     (case signals of
        [] \<Rightarrow> (Inr (Unsuccessful ''No valid signals found''), w)
      | first # _ \<Rightarrow>
          let f = weighted_decision signals
          in (case TradingSignal_create (grok_attrs now smb signals first f) w of
                (Inl e, w') \<Rightarrow> (Inl (Rethrown ''Market analysis failed: '' e), w')
              | (Inr grokSignal, w') \<Rightarrow>
                  (Inr (Successful (fused_action f) (fused_confidence f) (id' grokSignal)
                         (length signals)), w')))"

definition GrokEngine_analyzeMarket ::
    "int \<Rightarrow> string \<Rightarrow> signal option \<Rightarrow> signal list \<Rightarrow> string option \<Rightarrow> world
      \<Rightarrow> (error + analysis) \<times> world" where
  "GrokEngine_analyzeMarket now smb cyberMetricsSignal twitterSignals patternSignalId w =
     fuse now smb (collect_signals smb cyberMetricsSignal twitterSignals patternSignalId w) w"

section \<open>Trade execution\<close>

text \<open>
  The answer of \<open>executeTrade\<close>: \<open>{success: false, message}\<close> or
  \<open>{success: true, signalId, action, symbol, price, confidence, executedAt}\<close>
  (CYBER\_METRICS answers without the confidence). The text of a status inside a template
  literal is the status itself, \<open>null\<close> for an empty column.
\<close>

datatype execution =
    Declined string
  | Executed string string string "jsnum option" "jsnum option" int

definition status_text :: "string option \<Rightarrow> string" where
  "status_text st = (case st of Some t \<Rightarrow> t | None \<Rightarrow> ''null'')"

definition trade_failed :: "string \<Rightarrow> error" where
  "trade_failed msg = Rethrown ''Trade execution failed: '' (Error msg)"

text \<open>\<open>GrokEngine.executeTrade(signalId)\<close>; \<open>now\<close> is the clock read for \<open>executedAt\<close>.\<close>

definition GrokEngine_executeTrade ::
    "int \<Rightarrow> string \<Rightarrow> world \<Rightarrow> (error + execution) \<times> world" where
  "GrokEngine_executeTrade now signalId w =
     (case findByPk signalId w of
        None \<Rightarrow> (Inl (trade_failed ''Trading signal not found''), w)
      | Some sg \<Rightarrow>
          if source sg \<noteq> ''GROK_ENGINE''
            then (Inl (trade_failed ''Signal is not from Grok Engine''), w)
          else if status sg \<noteq> Some ''pending''
            then (Inl (trade_failed (''Signal is already '' @ status_text (status sg))), w)
          else if js_lt (confidence sg) (Fin 75)
            then (Inr (Declined ''Signal confidence too low for execution''),
                  signal_update
                    (sg\<lparr>status := Some ''cancelled'',
                        metadata := AList.update ''reason'' (JStr ''Low confidence'') (metadata sg)\<rparr>)
                    w)
          else (Inr (Executed signalId (action sg) (symbol sg) (price sg) (Some (confidence sg)) now),
                signal_update (sg\<lparr>status := Some ''executed''\<rparr>) w))"

text \<open>\<open>CyberMetrics.executeTrade(signalId)\<close>, the sibling without the source and confidence gates.\<close>

definition CyberMetrics_executeTrade ::
    "int \<Rightarrow> string \<Rightarrow> world \<Rightarrow> (error + execution) \<times> world" where
  "CyberMetrics_executeTrade now signalId w =
     (case findByPk signalId w of
        None \<Rightarrow> (Inl (trade_failed ''Trading signal not found''), w)
      | Some sg \<Rightarrow>
          if status sg \<noteq> Some ''pending''
            then (Inl (trade_failed (''Signal is already '' @ status_text (status sg))), w)
          else (Inr (Executed signalId (action sg) (symbol sg) (price sg) None now),
                signal_update (sg\<lparr>status := Some ''executed''\<rparr>) w))"

section \<open>TWITTER\_MONITOR: signals from tweets\<close>

text \<open>
  \<open>TwitterMonitorModule.analyzeTweets\<close>, from the fetched tweets on. The tweets are grouped
  by symbol in an object, which keeps its keys in the order of their first insertion.
\<close>

record tweet =
  username :: string
  sentiment :: string
  sentimentScore :: jsnum
  symbols :: "string list"

fun push_tweet :: "string \<Rightarrow> tweet \<Rightarrow> (string \<times> tweet list) list \<Rightarrow> (string \<times> tweet list) list" where
  "push_tweet smb t [] = [(smb, [t])]"
| "push_tweet smb t ((k, ts) # m) =
     (if k = smb then (k, ts @ [t]) # m else (k, ts) # push_tweet smb t m)"

definition group_by_symbol :: "tweet list \<Rightarrow> (string \<times> tweet list) list" where
  "group_by_symbol tweets =
     fold (\<lambda>t m. fold (\<lambda>smb m'. push_tweet smb t m') (symbols t) m) tweets []"

definition signed_sentiment :: "tweet \<Rightarrow> jsnum" where
  "signed_sentiment t =
     (if sentiment t = ''positive'' then sentimentScore t
      else if sentiment t = ''negative'' then js_neg (sentimentScore t)
      else Fin 0)"

definition sentimentSum :: "tweet list \<Rightarrow> jsnum" where
  "sentimentSum symbolTweetList =
     fold (\<lambda>t acc. js_add acc (signed_sentiment t)) symbolTweetList (Fin 0)"

definition avgSentiment :: "tweet list \<Rightarrow> jsnum" where
  "avgSentiment symbolTweetList =
     js_div (sentimentSum symbolTweetList) (Fin (real (length symbolTweetList)))"

text \<open>The literal \<open>0.3\<close> is the double nearest to three tenths.\<close>

definition sentiment_action :: "jsnum \<Rightarrow> string" where
  "sentiment_action avg =
     (if js_gt avg (rnd (3 / 10)) then ''buy''
      else if js_lt avg (js_neg (rnd (3 / 10))) then ''sell''
      else ''hold'')"

definition twitter_attrs :: "int \<Rightarrow> string \<Rightarrow> tweet list \<Rightarrow> signal_attrs" where
  "twitter_attrs now smb symbolTweetList =
     (let avg = avgSentiment symbolTweetList;
          conf = js_mul (js_abs avg) (Fin 100)
      in \<lparr> symbol = smb, action = sentiment_action avg, confidence = js_min conf (Fin 95),
           price = Some (Fin 0), targetPrice = None, stopLoss = None,
           timeframe = ''24h'', source = ''TWITTER_MONITOR'', status = Some ''pending'',
           expiresAt = Some (now + 24 * 60 * 60 * 1000),
           metadata =
             [(''tweetCount'', JNum (Fin (real (length symbolTweetList)))),
              (''avgSentiment'', JNum avg),
              (''influencers'', JArr (map (\<lambda>t. JStr (username t)) symbolTweetList))] \<rparr>)"

text \<open>The loop over the symbols: a signal for each symbol with at least three tweets
  whose average sentiment does not say hold. An error of the store ends the loop.\<close>

fun generate_signals ::
    "int \<Rightarrow> (string \<times> tweet list) list \<Rightarrow> signal list \<Rightarrow> world
      \<Rightarrow> (error + signal list) \<times> world" where
  "generate_signals now [] signals w = (Inr signals, w)"
| "generate_signals now ((smb, symbolTweetList) # rest) signals w =
     (if 3 \<le> length symbolTweetList
         \<and> sentiment_action (avgSentiment symbolTweetList) \<noteq> ''hold''
      then (case TradingSignal_create (twitter_attrs now smb symbolTweetList) w of
              (Inl e, w') \<Rightarrow> (Inl e, w')
            | (Inr sg, w') \<Rightarrow> generate_signals now rest (signals @ [sg]) w')
      else generate_signals now rest signals w)"

definition analyzeTweets :: "int \<Rightarrow> tweet list \<Rightarrow> world \<Rightarrow> (error + signal list) \<times> world" where
  "analyzeTweets now tweets w =
     (case generate_signals now (group_by_symbol tweets) [] w of
        (Inl e, w') \<Rightarrow> (Inl (Rethrown ''Tweet analysis failed: '' e), w')
      | (Inr signals, w') \<Rightarrow> (Inr signals, w'))"

section \<open>HIVE\_MATRIX: the trade queue\<close>

text \<open>
  \<open>HiveMatrix.queueTrade\<close> hands the trade to the queue \<open>trade-execution\<close> with the
  options \<open>{priority: 1, attempts: 3, backoff: {type: 'exponential', delay: 1000}}\<close> and
  answers \<open>{success: true, jobId, status: 'queued'}\<close>. The queue is created on first use.
\<close>

record job_options =
  priority :: nat
  attempts :: nat
  backoff_type :: string
  backoff_delay :: nat

datatype job_state = Queued | Running | Succeeded | Failed | Exhausted

record 'p job =
  job_id :: nat
  lane :: string
  payload :: 'p
  opts :: job_options
  attempt :: nat
  delay :: nat
  state :: job_state

record 'p hive =
  tradeQueue :: "'p job list option"

datatype queued = QueuedJob nat string

text \<open>
  Modelled from the spec: the queue engine (the library behind \<open>tradeQueue.add\<close>, which
  admits, delivers and retries the jobs) is a dependency and not part of the sources.
  Admission creates a queued job with \<open>attempt = 0\<close>. A worker takes a queued job
  (\<open>running\<close>) and reports the outcome of the handler. A success ends the job as
  \<open>succeeded\<close>. A failure consumes one attempt; the job is queued again, delayed by its
  backoff policy (fixed: the base delay; exponential: \<open>baseDelay * 2^attempt\<close>), while
  attempts are left, and is \<open>exhausted\<close> when \<open>attempt\<close> has reached \<open>maxAttempts\<close>:
  the trace of the specification for \<open>maxAttempts = 3\<close> is
  \<open>queued \<rightarrow> queued(attempt 1) \<rightarrow> queued(attempt 2) \<rightarrow> exhausted\<close>. A job that is succeeded
  or exhausted does not change any more.
\<close>

definition maxAttempts :: "'p job \<Rightarrow> nat" where
  "maxAttempts j = attempts (opts j)"

text \<open>Modelled from the spec: admission (\<open>enqueue\<close>, the library's \<open>add\<close>) appends a
  queued job with no attempt made.\<close>

definition queue_add :: "string \<Rightarrow> 'p \<Rightarrow> job_options \<Rightarrow> 'p job list \<Rightarrow> 'p job \<times> 'p job list" where
  "queue_add name data os q =
     (let j = \<lparr> job_id = Suc (length q), lane = name, payload = data, opts = os,
                attempt = 0, delay = 0, state = Queued \<rparr>
      in (j, q @ [j]))"

text \<open>Modelled from the spec: the delay of a retry, \<open>backoffPolicy(attempt)\<close>.\<close>

definition backoffPolicy :: "job_options \<Rightarrow> nat \<Rightarrow> nat" where
  "backoffPolicy os n =
     (if backoff_type os = ''exponential'' then backoff_delay os * 2 ^ n else backoff_delay os)"

datatype outcome = HandlerSucceeded | HandlerFailed

text \<open>Modelled from the spec: a worker takes a queued job, which is then running.\<close>

definition take_job :: "'p job \<Rightarrow> 'p job" where
  "take_job j = (if state j = Queued then j\<lparr>state := Running\<rparr> else j)"

text \<open>Modelled from the spec: the outcome of the handler for a running job, with the
  retry while attempts are left and the exhaustion when they are used up.\<close>

definition report :: "outcome \<Rightarrow> 'p job \<Rightarrow> 'p job" where
  "report oc j =
     (if state j \<noteq> Running then j
      else (case oc of
              HandlerSucceeded \<Rightarrow> j\<lparr>state := Succeeded\<rparr>
            | HandlerFailed \<Rightarrow>
                if Suc (attempt j) < maxAttempts j
                then j\<lparr>attempt := Suc (attempt j),
                       delay := backoffPolicy (opts j) (attempt j),
                       state := Queued\<rparr>
                else j\<lparr>attempt := Suc (attempt j), state := Exhausted\<rparr>))"

definition deliver :: "outcome \<Rightarrow> 'p job \<Rightarrow> 'p job" where
  "deliver oc j = report oc (take_job j)"

text \<open>The job after a sequence of handler outcomes, and the deliveries it took.\<close>

fun deliver_all :: "outcome list \<Rightarrow> 'p job \<Rightarrow> 'p job" where
  "deliver_all [] j = j"
| "deliver_all (oc # ocs) j = deliver_all ocs (deliver oc j)"

fun deliveries :: "outcome list \<Rightarrow> 'p job \<Rightarrow> nat" where
  "deliveries [] j = 0"
| "deliveries (oc # ocs) j =
     (if state j = Queued then Suc (deliveries ocs (deliver oc j)) else 0)"

text \<open>The source: the options of a trade job and \<open>queueTrade\<close>.\<close>

definition trade_options :: job_options where
  "trade_options =
     \<lparr> priority = 1, attempts = 3, backoff_type = ''exponential'', backoff_delay = 1000 \<rparr>"

definition initialize :: "'p hive \<Rightarrow> 'p hive" where
  "initialize h = h\<lparr>tradeQueue := Some []\<rparr>"

definition queueTrade :: "'p \<Rightarrow> 'p hive \<Rightarrow> queued \<times> 'p hive" where
  "queueTrade tradeData h =
     (let h1 = (if tradeQueue h = None then initialize h else h);
          q = (case tradeQueue h1 of Some q \<Rightarrow> q | None \<Rightarrow> []);
          (j, q') = queue_add ''trade-execution'' tradeData trade_options q
      in (QueuedJob (job_id j) ''queued'', h1\<lparr>tradeQueue := Some q'\<rparr>))"

text \<open>The jobs of the trade queue, and the job a call of \<open>queueTrade\<close> admitted.\<close>

definition trade_jobs :: "'p hive \<Rightarrow> 'p job list" where
  "trade_jobs h = (case tradeQueue h of Some q \<Rightarrow> q | None \<Rightarrow> [])"

definition admitted_trade :: "'p \<Rightarrow> 'p hive \<Rightarrow> 'p job" where
  "admitted_trade tradeData h = last (trade_jobs (snd (queueTrade tradeData h)))"

section \<open>The fusion rule in the words of the specification\<close>

text \<open>
  The reference the weighted decision is compared with: the weight of a signal is
  \<open>confidence / 100\<close>; a sum accumulates its terms from 0 in their order; the buy and the
  sell weight are the sums over the signals of that action divided by the sum over all
  signals, and the hold weight is \<open>1 - buyWeight - sellWeight\<close>.
\<close>

definition weight :: "signal \<Rightarrow> jsnum" where
  "weight sg = js_div (confidence sg) (Fin 100)"

definition accumulate :: "jsnum list \<Rightarrow> jsnum \<Rightarrow> jsnum" where
  "accumulate xs start = fold (\<lambda>x acc. js_add acc x) xs start"

definition spec_totalWeight :: "signal list \<Rightarrow> jsnum" where
  "spec_totalWeight signals = accumulate (map weight signals) (Fin 0)"

definition spec_buyWeight :: "signal list \<Rightarrow> jsnum" where
  "spec_buyWeight signals =
     js_div (accumulate (map weight (filter (\<lambda>sg. action sg = ''buy'') signals)) (Fin 0))
            (spec_totalWeight signals)"

definition spec_sellWeight :: "signal list \<Rightarrow> jsnum" where
  "spec_sellWeight signals =
     js_div (accumulate (map weight (filter (\<lambda>sg. action sg = ''sell'') signals)) (Fin 0))
            (spec_totalWeight signals)"

definition spec_holdWeight :: "signal list \<Rightarrow> jsnum" where
  "spec_holdWeight signals =
     js_sub (js_sub (Fin 1) (spec_buyWeight signals)) (spec_sellWeight signals)"



text \<open>A decision that says hold with confidence 0.\<close>

definition hold_with_zero_confidence :: "error + analysis \<Rightarrow> bool" where
  "hold_with_zero_confidence r =
     (case r of Inr (Successful a c i n) \<Rightarrow> a = ''hold'' \<and> c = Fin 0 | _ \<Rightarrow> False)"

text \<open>The rows of the store satisfy the declared schema.\<close>

definition valid_row :: "signal \<Rightarrow> bool" where
  "valid_row r \<longleftrightarrow>
     confidence_in_range (confidence r) \<and>
     action r \<in> set ACTIONS \<and>
     source r \<in> set SOURCES \<and>
     (case status r of Some t \<Rightarrow> t \<in> set STATUSES | None \<Rightarrow> False)"

text \<open>
  The stores the modelled operations can produce from an empty table: signals come in
  through \<open>TradingSignal.create\<close> (directly, or inside \<open>analyzeTweets\<close> and
  \<open>analyzeMarket\<close>) and change through the two \<open>executeTrade\<close>.
\<close>

inductive reachable :: "world \<Rightarrow> bool" where
  empty_table: "reachable \<lparr> rows = [], uuids = u \<rparr>"
| created: "reachable w \<Longrightarrow> reachable (snd (TradingSignal_create a w))"
| tweets_analyzed: "reachable w \<Longrightarrow> reachable (snd (analyzeTweets now tweets w))"
| market_analyzed:
    "reachable w \<Longrightarrow>
     reachable (snd (GrokEngine_analyzeMarket now smb cyberMetricsSignal twitterSignals
                       patternSignalId w))"
| grok_executed: "reachable w \<Longrightarrow> reachable (snd (GrokEngine_executeTrade now signalId w))"
| cyber_executed: "reachable w \<Longrightarrow> reachable (snd (CyberMetrics_executeTrade now signalId w))"

text \<open>The invariant of a job: no more attempts than allowed, and one left while the job
  can still be delivered.\<close>

definition job_ok :: "'p job \<Rightarrow> bool" where
  "job_ok j \<longleftrightarrow>
     (if state j = Queued \<or> state j = Running then attempt j < maxAttempts j
      else attempt j \<le> maxAttempts j)"

text \<open>A signal as TWITTER\_MONITOR creates it: directional, with a capped confidence.\<close>

definition twitter_signal :: "signal \<Rightarrow> bool" where
  "twitter_signal sg \<longleftrightarrow>
     (action sg = ''buy'' \<or> action sg = ''sell'') \<and> action sg \<noteq> ''hold'' \<and>
     source sg = ''TWITTER_MONITOR'' \<and>
     (case confidence sg of Fin c \<Rightarrow> 0 \<le> c \<and> c \<le> 95 | _ \<Rightarrow> False)"

section \<open>Example inputs\<close>

text \<open>A pending opinion on BTC with the given id, source, action and confidence, a store
  without rows and a UUID generator.\<close>

definition opinion :: "string \<Rightarrow> string \<Rightarrow> string \<Rightarrow> real \<Rightarrow> signal" where
  "opinion i src a c =
     \<lparr> symbol = ''BTC'', action = a, confidence = Fin c, price = Some (Fin 50000),
       targetPrice = None, stopLoss = None, timeframe = ''4h'', source = src,
       status = Some ''pending'', expiresAt = Some 1000, metadata = [], id' = i \<rparr>"

definition example_uuids :: "nat \<Rightarrow> string" where
  "example_uuids n = ''uuid-'' @ replicate n (CHR ''x'')"

definition store_of :: "signal list \<Rightarrow> world" where
  "store_of rs = \<lparr> rows = rs, uuids = example_uuids \<rparr>"

definition example_tweet :: "string \<Rightarrow> string \<Rightarrow> real \<Rightarrow> string list \<Rightarrow> tweet" where
  "example_tweet u s x smbs =
     \<lparr> username = u, sentiment = s, sentimentScore = Fin x, symbols = smbs \<rparr>"

section \<open>Rounding in a known binade\<close>

lemma binade_up_eq:
  "0 < p \<Longrightarrow> 2 ^ k * p \<le> a \<Longrightarrow> a < 2 * (2 ^ k * p) \<Longrightarrow> k \<le> n \<Longrightarrow>
   binade_up n a p = 2 ^ k * p"
proof (induction n arbitrary: p k)
  case 0
  then show ?case by simp
next
  case (Suc n)
  show ?case
  proof (cases k)
    case 0
    with Suc.prems show ?thesis by simp
  next
    case (Suc j)
    have "1 \<le> (2::real) ^ j" by simp
    with Suc.prems(1) have "2 * p \<le> 2 ^ j * (2 * p)" by (simp add: mult_le_cancel_right1)
    also have "\<dots> \<le> a" using Suc.prems(2) Suc by (simp add: mult.assoc)
    finally have c: "2 * p \<le> a" .
    have "binade_up n a (2 * p) = 2 ^ j * (2 * p)"
      using Suc.prems Suc by (intro Suc.IH) (simp_all add: mult.assoc)
    with c Suc show ?thesis by (simp add: mult.assoc)
  qed
qed

lemma binade_down_eq:
  "0 < p \<Longrightarrow> p / 2 ^ k \<le> a \<Longrightarrow> a < 2 * (p / 2 ^ k) \<Longrightarrow> k \<le> n \<Longrightarrow>
   binade_down n a p = p / 2 ^ k"
proof (induction n arbitrary: p k)
  case 0
  then show ?case by simp
next
  case (Suc n)
  show ?case
  proof (cases k)
    case 0
    with Suc.prems show ?thesis by simp
  next
    case (Suc j)
    have "1 \<le> (2::real) ^ j" by simp
    then have "p / 2 ^ j \<le> p" using Suc.prems(1) by (simp add: divide_le_eq mult_le_cancel_left1)
    moreover have "a < p / 2 ^ j" using Suc.prems(3) Suc by simp
    ultimately have c: "a < p" by simp
    have "binade_down n a (p / 2) = (p / 2) / 2 ^ j"
      using Suc.prems Suc by (intro Suc.IH) simp_all
    with c Suc show ?thesis by simp
  qed
qed

lemma round_half_even_le: "round_half_even y \<le> \<lfloor>y\<rfloor> + 1"
  by (simp add: round_half_even_def Let_def)

lemma round_half_even_below:
  assumes "y < 2 ^ 53"
  shows "real_of_int (round_half_even y) \<le> 2 ^ 53"
proof -
  from assms have "\<lfloor>y\<rfloor> < 2 ^ 53" by (simp add: floor_less_iff)
  then have "\<lfloor>y\<rfloor> + 1 \<le> 2 ^ 53" by linarith
  with round_half_even_le [of y] have "round_half_even y \<le> 2 ^ 53" by (rule order_trans)
  then have "real_of_int (round_half_even y) \<le> real_of_int (2 ^ 53)"
    by (rule of_int_le_iff [THEN iffD2])
  then show ?thesis by simp
qed

text \<open>A positive number of a known binade: the search finds the binade, and the rounded
  number is no infinity.\<close>

lemma rnd_in_binade:
  assumes "0 < p" and "p \<le> x" and "x < 2 * p" and "binade x = p" and "2 * p < 2 ^ 1024"
  shows "rnd x = Fin (real_of_int (round_half_even (x * 2 ^ 52 / p)) * p / 2 ^ 52)"
proof -
  have x: "0 < x" using assms(1,2) by simp
  have y: "x / (p / 2 ^ 52) = x * 2 ^ 52 / p" by simp
  have "x * 2 ^ 52 / p < 2 ^ 53"
    using assms(1,3) by (simp add: divide_less_eq)
  from round_half_even_below [OF this]
  have "real_of_int (round_half_even (x * 2 ^ 52 / p)) * (p / 2 ^ 52) \<le> 2 ^ 53 * (p / 2 ^ 52)"
    using assms(1) by (intro mult_right_mono) simp_all
  also have "\<dots> = 2 * p" by simp
  finally have "\<not> 2 ^ 1024 \<le> real_of_int (round_half_even (x * 2 ^ 52 / p)) * (p / 2 ^ 52)"
    using assms(5) by simp
  then show ?thesis
    using x by (simp add: rnd_def assms(4) y Let_def)
qed

lemma rnd_from_one:
  assumes "2 ^ k \<le> x" and "x < 2 * 2 ^ k" and "k \<le> 1022"
  shows "rnd x = Fin (real_of_int (round_half_even (x * 2 ^ 52 / 2 ^ k)) * 2 ^ k / 2 ^ 52)"
proof -
  have "(1::real) \<le> 2 ^ k" by simp
  with assms(1) have 1: "1 \<le> x" by linarith
  have "binade_up 1023 x 1 = 2 ^ k * 1"
    using assms by (intro binade_up_eq) simp_all
  with 1 have b: "binade x = 2 ^ k" by (simp add: binade_def)
  have "(2::real) * 2 ^ k = 2 ^ Suc k" by simp
  also have "\<dots> < 2 ^ 1024" using assms(3) by (intro power_strict_increasing) simp_all
  finally have "(2::real) * 2 ^ k < 2 ^ 1024" .
  with assms b show ?thesis by (intro rnd_in_binade) simp_all
qed

lemma rnd_below_one:
  assumes "1 / 2 ^ k \<le> x" and "x < 2 / 2 ^ k" and "1 \<le> k" and "k \<le> 1022"
  shows "rnd x = Fin (real_of_int (round_half_even (x * 2 ^ 52 * 2 ^ k)) / (2 ^ k * 2 ^ 52))"
proof -
  have "(2::real) ^ 1 \<le> 2 ^ k" using assms(3) by (intro power_increasing) simp_all
  then have "2 / 2 ^ k \<le> (1::real)" by (simp add: divide_le_eq)
  with assms(2) have 1: "\<not> 1 \<le> x" by linarith
  have "binade_down 1022 x 1 = 1 / 2 ^ k"
    using assms by (intro binade_down_eq) simp_all
  with 1 have b: "binade x = 1 / 2 ^ k" by (simp add: binade_def)
  have "2 * (1 / 2 ^ k) \<le> (1::real)" using \<open>2 / 2 ^ k \<le> (1::real)\<close> by simp
  also have "(1::real) < 2 ^ 1024" by simp
  finally have "2 * (1 / 2 ^ k) < (2::real) ^ 1024" .
  with assms b
  have "rnd x = Fin (real_of_int (round_half_even (x * 2 ^ 52 / (1 / 2 ^ k))) * (1 / 2 ^ k) / 2 ^ 52)"
    by (intro rnd_in_binade) simp_all
  then show ?thesis by simp
qed

lemma rnd_zero: "rnd 0 = Fin 0"
  by (simp add: rnd_def)

lemma rnd_minus: "rnd (- x) = js_neg (rnd x)"
  by (simp add: rnd_def Let_def)

text \<open>The rules to evaluate the rounding of a number between \<open>2^-64\<close> and \<open>2^12\<close>.\<close>

lemmas rnd_evals =
  round_half_even_def rnd_zero rnd_minus
  rnd_from_one [of 0] rnd_from_one [of 1] rnd_from_one [of 2] rnd_from_one [of 3]
  rnd_from_one [of 4] rnd_from_one [of 5] rnd_from_one [of 6] rnd_from_one [of 7]
  rnd_from_one [of 8] rnd_from_one [of 9] rnd_from_one [of 10] rnd_from_one [of 11]
  rnd_below_one [of 1] rnd_below_one [of 2] rnd_below_one [of 3] rnd_below_one [of 4]
  rnd_below_one [of 5] rnd_below_one [of 6] rnd_below_one [of 7] rnd_below_one [of 8]
  rnd_below_one [of 9] rnd_below_one [of 10] rnd_below_one [of 11] rnd_below_one [of 12]
  rnd_below_one [of 13] rnd_below_one [of 14] rnd_below_one [of 15] rnd_below_one [of 16]
  rnd_below_one [of 17] rnd_below_one [of 18] rnd_below_one [of 19] rnd_below_one [of 20]
  rnd_below_one [of 21] rnd_below_one [of 22] rnd_below_one [of 23] rnd_below_one [of 24]
  rnd_below_one [of 25] rnd_below_one [of 26] rnd_below_one [of 27] rnd_below_one [of 28]
  rnd_below_one [of 29] rnd_below_one [of 30] rnd_below_one [of 31] rnd_below_one [of 32]
  rnd_below_one [of 33] rnd_below_one [of 34] rnd_below_one [of 35] rnd_below_one [of 36]
  rnd_below_one [of 37] rnd_below_one [of 38] rnd_below_one [of 39] rnd_below_one [of 40]
  rnd_below_one [of 41] rnd_below_one [of 42] rnd_below_one [of 43] rnd_below_one [of 44]
  rnd_below_one [of 45] rnd_below_one [of 46] rnd_below_one [of 47] rnd_below_one [of 48]
  rnd_below_one [of 49] rnd_below_one [of 50] rnd_below_one [of 51] rnd_below_one [of 52]
  rnd_below_one [of 53] rnd_below_one [of 54] rnd_below_one [of 55] rnd_below_one [of 56]
  rnd_below_one [of 57] rnd_below_one [of 58] rnd_below_one [of 59] rnd_below_one [of 60]
  rnd_below_one [of 61] rnd_below_one [of 62] rnd_below_one [of 63] rnd_below_one [of 64]

lemma rnd_examples:
  "rnd (9 / 10) = Fin (8106479329266893 / 9007199254740992)"
  "rnd (8106479329266893 / 9007199254740992 + 3602879701896397 / 4503599627370496) =
     Fin (1914029841632461 / 1125899906842624)"
  "rnd (1 / 36028797018963968 * 100) = Fin (25 / 9007199254740992)"
  "rnd (3 / 10) = Fin (5404319552844595 / 18014398509481984)"
  "rnd (- (1 / 3)) = Fin (- (6004799503160661 / 18014398509481984))"
  "rnd 100 = Fin 100"
  by (simp_all add: rnd_evals)

section \<open>Rounding keeps positive numbers positive\<close>










section \<open>The weighted decision follows the fusion rule\<close>

lemma js_gt_asym: "js_gt a b \<Longrightarrow> \<not> js_gt b a"
  by (cases a; cases b) auto

lemma weigh_step:
  "weigh x (b, s, t) =
     ((if action x = ''buy'' then js_add b (weight x) else b),
      (if action x = ''sell'' then js_add s (weight x) else s),
      js_add t (weight x))"
  by (simp add: weigh_def weight_def Let_def)

text \<open>The loop computes the three sums of the specification, each in the order of the
  signals.\<close>

lemma fold_weigh:
  "fold weigh signals (b, s, t) =
     (accumulate (map weight (filter (\<lambda>sg. action sg = ''buy'') signals)) b,
      accumulate (map weight (filter (\<lambda>sg. action sg = ''sell'') signals)) s,
      accumulate (map weight signals) t)"
proof (induction signals arbitrary: b s t)
  case Nil
  show ?case by (simp add: accumulate_def)
next
  case (Cons x xs)
  show ?case
    by (simp add: weigh_step Cons.IH) (simp add: accumulate_def)
qed

lemma weighted_decision_weights:
  "buyWeight (weighted_decision signals) = spec_buyWeight signals"
  "sellWeight (weighted_decision signals) = spec_sellWeight signals"
  "holdWeight (weighted_decision signals) = spec_holdWeight signals"
  by (simp_all add: weighted_decision_def fold_weigh spec_buyWeight_def spec_sellWeight_def
      spec_holdWeight_def spec_totalWeight_def Let_def)

lemma weighted_decision_choice:
  "fused_action (weighted_decision signals) =
     (if js_gt (spec_buyWeight signals) (spec_sellWeight signals)
         \<and> js_gt (spec_buyWeight signals) (spec_holdWeight signals) then ''buy''
      else if js_gt (spec_sellWeight signals) (spec_buyWeight signals)
         \<and> js_gt (spec_sellWeight signals) (spec_holdWeight signals) then ''sell''
      else ''hold'')"
  "fused_confidence (weighted_decision signals) =
     js_mul (if js_gt (spec_buyWeight signals) (spec_sellWeight signals)
                \<and> js_gt (spec_buyWeight signals) (spec_holdWeight signals)
             then spec_buyWeight signals
             else if js_gt (spec_sellWeight signals) (spec_buyWeight signals)
                \<and> js_gt (spec_sellWeight signals) (spec_holdWeight signals)
             then spec_sellWeight signals
             else spec_holdWeight signals) (Fin 100)"
  by (simp_all add: weighted_decision_def fold_weigh spec_buyWeight_def spec_sellWeight_def
      spec_holdWeight_def spec_totalWeight_def Let_def)

lemma example_buy:
  "weighted_decision [opinion ''a'' ''CYBER_METRICS'' ''buy'' 90,
                      opinion ''b'' ''TWITTER_MONITOR'' ''buy'' 80,
                      opinion ''c'' ''DEEPSEEK_AI'' ''sell'' 50] =
     \<lparr> fused_action = ''buy'', fused_confidence = Fin (5437584777364945 / 70368744177664),
       buyWeight = Fin (3480054257513565 / 4503599627370496), sellWeight = Fin (8188362958855447 / 36028797018963968),
       holdWeight = Fin (1 / 36028797018963968) \<rparr>"
  by (simp add: weighted_decision_def weigh_def opinion_def js_sub_def Let_def rnd_evals)

lemma example_tie:
  "weighted_decision [opinion ''a'' ''CYBER_METRICS'' ''buy'' 50,
                      opinion ''b'' ''TWITTER_MONITOR'' ''sell'' 50] =
     \<lparr> fused_action = ''hold'', fused_confidence = Fin (0),
       buyWeight = Fin (1 / 2), sellWeight = Fin (1 / 2),
       holdWeight = Fin (0) \<rparr>"
  by (simp add: weighted_decision_def weigh_def opinion_def js_sub_def Let_def rnd_evals)

text \<open>The JavaScript expression \<open>(0.9 + 0.8) / (0.9 + 0.8 + 0.5) * 100\<close>.\<close>

lemma example_expression:
  "js_mul (js_div (js_add (rnd (9 / 10)) (rnd (8 / 10)))
                  (js_add (js_add (rnd (9 / 10)) (rnd (8 / 10))) (rnd (5 / 10))))
          (Fin 100) = Fin (5437584777364945 / 70368744177664)"
  by (simp add: rnd_evals)

text \<open>
  Rounding decides where the exact weights would tie: with buy 34, buy 48 and sell 82 the
  sum \<open>0.34 + 0.48\<close> is the double above \<open>0.82\<close>, and the decision is buy with confidence 50.
\<close>

lemma rounding_decides_a_near_tie:
  "weighted_decision [opinion ''a'' ''CYBER_METRICS'' ''buy'' 34,
                      opinion ''b'' ''TWITTER_MONITOR'' ''buy'' 48,
                      opinion ''c'' ''DEEPSEEK_AI'' ''sell'' 82] =
     \<lparr> fused_action = ''buy'', fused_confidence = Fin (50),
       buyWeight = Fin (1 / 2), sellWeight = Fin (9007199254740991 / 18014398509481984),
       holdWeight = Fin (1 / 18014398509481984) \<rparr>"
  by (simp add: weighted_decision_def weigh_def opinion_def js_sub_def Let_def rnd_evals)

text \<open>
  C1. For every list of signals the weighted decision has the normalised weights of the
  specification (the sums of \<open>confidence / 100\<close> over the buy and over the sell signals,
  divided by the sum over all signals, and \<open>1 - buyWeight - sellWeight\<close>, all in double
  arithmetic); it says buy exactly when the buy weight exceeds both the sell and the hold
  weight, sell exactly when the sell weight exceeds both others, and hold otherwise (so
  equal weights are a hold), and its confidence is the winning weight times 100. Fusing
  buy 90, buy 80, sell 50 says buy with the confidence
  \<open>(0.9 + 0.8) / (0.9 + 0.8 + 0.5) * 100\<close>, between 77.27 and 77.28; fusing buy 50, sell 50
  says hold with confidence 0.
\<close>

theorem weighted_decision_rule:
  "(\<forall>signals.
      (let f = weighted_decision signals;
           b = buyWeight f; s = sellWeight f; h = holdWeight f
       in b = spec_buyWeight signals \<and> s = spec_sellWeight signals \<and>
          h = spec_holdWeight signals \<and>
          (fused_action f = ''buy'' \<longleftrightarrow> js_gt b s \<and> js_gt b h) \<and>
          (fused_action f = ''sell'' \<longleftrightarrow> js_gt s b \<and> js_gt s h) \<and>
          (fused_action f = ''hold'' \<longleftrightarrow>
             \<not> (js_gt b s \<and> js_gt b h) \<and> \<not> (js_gt s b \<and> js_gt s h)) \<and>
          fused_confidence f =
            js_mul (if fused_action f = ''buy'' then b
                    else if fused_action f = ''sell'' then s else h) (Fin 100))) \<and>
   (let f = weighted_decision [opinion ''a'' ''CYBER_METRICS'' ''buy'' 90,
                               opinion ''b'' ''TWITTER_MONITOR'' ''buy'' 80,
                               opinion ''c'' ''DEEPSEEK_AI'' ''sell'' 50]
    in fused_action f = ''buy'' \<and>
       fused_confidence f =
         js_mul (js_div (js_add (rnd (9 / 10)) (rnd (8 / 10)))
                        (js_add (js_add (rnd (9 / 10)) (rnd (8 / 10))) (rnd (5 / 10))))
                (Fin 100) \<and>
       fused_confidence f = Fin (5437584777364945 / 70368744177664) \<and>
       js_gt (fused_confidence f) (Fin (7727 / 100)) \<and>
       js_lt (fused_confidence f) (Fin (7728 / 100))) \<and>
   (let f = weighted_decision [opinion ''a'' ''CYBER_METRICS'' ''buy'' 50,
                               opinion ''b'' ''TWITTER_MONITOR'' ''sell'' 50]
    in fused_action f = ''hold'' \<and> fused_confidence f = Fin 0)"
proof (intro conjI allI)
  fix signals
  let ?b = "spec_buyWeight signals" and ?s = "spec_sellWeight signals"
  have x: "\<not> (js_gt ?b ?s \<and> js_gt ?s ?b)" using js_gt_asym [of ?b ?s] by blast
  show "let f = weighted_decision signals;
            b = buyWeight f; s = sellWeight f; h = holdWeight f
        in b = spec_buyWeight signals \<and> s = spec_sellWeight signals \<and>
           h = spec_holdWeight signals \<and>
           (fused_action f = ''buy'' \<longleftrightarrow> js_gt b s \<and> js_gt b h) \<and>
           (fused_action f = ''sell'' \<longleftrightarrow> js_gt s b \<and> js_gt s h) \<and>
           (fused_action f = ''hold'' \<longleftrightarrow>
              \<not> (js_gt b s \<and> js_gt b h) \<and> \<not> (js_gt s b \<and> js_gt s h)) \<and>
           fused_confidence f =
             js_mul (if fused_action f = ''buy'' then b
                     else if fused_action f = ''sell'' then s else h) (Fin 100)"
    unfolding Let_def using x
    by (auto simp: weighted_decision_weights weighted_decision_choice)
next
  show "let f = weighted_decision [opinion ''a'' ''CYBER_METRICS'' ''buy'' 90,
                               opinion ''b'' ''TWITTER_MONITOR'' ''buy'' 80,
                               opinion ''c'' ''DEEPSEEK_AI'' ''sell'' 50]
    in fused_action f = ''buy'' \<and>
       fused_confidence f =
         js_mul (js_div (js_add (rnd (9 / 10)) (rnd (8 / 10)))
                        (js_add (js_add (rnd (9 / 10)) (rnd (8 / 10))) (rnd (5 / 10))))
                (Fin 100) \<and>
       fused_confidence f = Fin (5437584777364945 / 70368744177664) \<and>
       js_gt (fused_confidence f) (Fin (7727 / 100)) \<and>
       js_lt (fused_confidence f) (Fin (7728 / 100))"
    unfolding example_buy example_expression by (simp add: js_lt_def)
next
  show "let f = weighted_decision [opinion ''a'' ''CYBER_METRICS'' ''buy'' 50,
                               opinion ''b'' ''TWITTER_MONITOR'' ''sell'' 50]
    in fused_action f = ''hold'' \<and> fused_confidence f = Fin 0"
    by (simp add: example_tie)
qed

section \<open>A total weight of zero\<close>







section \<open>Trade execution and the status of a signal\<close>

lemma find_id: "find (\<lambda>r. id' r = i) rs = Some sg \<Longrightarrow> id' sg = i"
  by (induction rs) (auto split: if_splits)

lemma find_updated:
  "find (\<lambda>r. id' r = i) rs = Some sg \<Longrightarrow> id' sg' = i \<Longrightarrow>
   find (\<lambda>r. id' r = i) (map (\<lambda>r. if id' r = i then sg' else r) rs) = Some sg'"
  by (induction rs) (auto split: if_splits)

lemma findByPk_id: "findByPk i w = Some sg \<Longrightarrow> id' sg = i"
  unfolding findByPk_def by (rule find_id)

lemma findByPk_signal_update:
  assumes "findByPk i w = Some sg" and "id' sg' = id' sg"
  shows "findByPk i (signal_update sg' w) = Some sg'"
proof -
  from assms(1) have i: "id' sg = i" by (rule findByPk_id)
  from assms(1) have "find (\<lambda>r. id' r = i) (rows w) = Some sg" by (simp add: findByPk_def)
  then have "find (\<lambda>r. id' r = i) (map (\<lambda>r. if id' r = i then sg' else r) (rows w)) = Some sg'"
    using assms(2) i by (intro find_updated) simp_all
  then show ?thesis using assms(2) i by (simp add: findByPk_def signal_update_def)
qed

lemma executeTrade_not_pending:
  assumes "findByPk signalId w = Some sg" and "status sg \<noteq> Some ''pending''"
  shows "GrokEngine_executeTrade now signalId w =
           (Inl (if source sg \<noteq> ''GROK_ENGINE'' then trade_failed ''Signal is not from Grok Engine''
                 else trade_failed (''Signal is already '' @ status_text (status sg))), w)"
    and "CyberMetrics_executeTrade now signalId w =
           (Inl (trade_failed (''Signal is already '' @ status_text (status sg))), w)"
  using assms by (simp_all add: GrokEngine_executeTrade_def CyberMetrics_executeTrade_def)

lemma executeTrade_pending:
  assumes "findByPk signalId w = Some sg" and "source sg = ''GROK_ENGINE''"
    and "status sg = Some ''pending''"
  shows "GrokEngine_executeTrade now signalId w =
           (if js_lt (confidence sg) (Fin 75)
            then (Inr (Declined ''Signal confidence too low for execution''),
                  signal_update
                    (sg\<lparr>status := Some ''cancelled'',
                        metadata := AList.update ''reason'' (JStr ''Low confidence'') (metadata sg)\<rparr>)
                    w)
            else (Inr (Executed signalId (action sg) (symbol sg) (price sg) (Some (confidence sg)) now),
                  signal_update (sg\<lparr>status := Some ''executed''\<rparr>) w))"
  using assms by (simp add: GrokEngine_executeTrade_def)

text \<open>
  C3. No transition leaves a state that is not pending: the execution of a stored signal
  whose status is expired, executed or cancelled (anything but pending) fails and leaves
  the store as it was. The error is the one of the status check,
  \<open>Signal is already <status>\<close> (the invalid transition), in \<open>CyberMetrics.executeTrade\<close>
  and, for a signal of the engine itself, in \<open>GrokEngine.executeTrade\<close>, whose check of
  the source comes first.
\<close>

theorem no_transition_out_of_terminal_state:
  assumes "findByPk signalId w = Some sg" and "status sg \<noteq> Some ''pending''"
  shows "(\<exists>e. GrokEngine_executeTrade now signalId w = (Inl e, w)) \<and>
         (source sg = ''GROK_ENGINE'' \<longrightarrow>
            GrokEngine_executeTrade now signalId w =
              (Inl (trade_failed (''Signal is already '' @ status_text (status sg))), w)) \<and>
         CyberMetrics_executeTrade now signalId w =
           (Inl (trade_failed (''Signal is already '' @ status_text (status sg))), w) \<and>
         findByPk signalId (snd (GrokEngine_executeTrade now signalId w)) = Some sg \<and>
         findByPk signalId (snd (CyberMetrics_executeTrade now signalId w)) = Some sg"
  using assms by (simp add: executeTrade_not_pending [OF assms])

theorem no_transition_out_of_terminal_state_witness:
  "(let sg = (opinion ''g1'' ''GROK_ENGINE'' ''buy'' 80)\<lparr>status := Some ''expired''\<rparr>;
        w = store_of [sg]
    in findByPk ''g1'' w = Some sg \<and> status sg \<noteq> Some ''pending'' \<and>
       GrokEngine_executeTrade 2000 ''g1'' w =
         (Inl (Rethrown ''Trade execution failed: '' (Error ''Signal is already expired'')), w) \<and>
       CyberMetrics_executeTrade 2000 ''g1'' w =
         (Inl (Rethrown ''Trade execution failed: '' (Error ''Signal is already expired'')), w) \<and>
       map status (rows (snd (GrokEngine_executeTrade 2000 ''g1'' w))) = [Some ''expired''])"
proof -
  let ?sg = "(opinion ''g1'' ''GROK_ENGINE'' ''buy'' 80)\<lparr>status := Some ''expired''\<rparr>"
  let ?w = "store_of [?sg]"
  have f: "findByPk ''g1'' ?w = Some ?sg"
    by (simp add: findByPk_def store_of_def opinion_def)
  have s: "status ?sg \<noteq> Some ''pending''" by simp
  have g: "source ?sg = ''GROK_ENGINE''" by (simp add: opinion_def)
  have t: "status_text (status ?sg) = ''expired''" by (simp add: status_text_def)
  from no_transition_out_of_terminal_state [OF f s, of 2000] g t f s show ?thesis
    by (simp add: Let_def trade_failed_def store_of_def)
qed

text \<open>
  C4, as the code has it. The execution looks at the stored status and nothing else of
  the life of the signal: the expiry time and the clock are not read. Whatever they are,
  a stored signal of the engine that is pending ends executed when its confidence is not
  below 75 and cancelled when it is; any other stored signal keeps its status, and the
  execution of a signal that is not pending fails without a change of the store.
\<close>

theorem execution_checks_status_only:
  assumes "findByPk signalId w = Some sg"
  shows "map_option status (findByPk signalId (snd (GrokEngine_executeTrade now signalId w))) =
           Some (if source sg = ''GROK_ENGINE'' \<and> status sg = Some ''pending''
                 then (if js_lt (confidence sg) (Fin 75) then Some ''cancelled''
                       else Some ''executed'')
                 else status sg) \<and>
         (status sg \<noteq> Some ''pending'' \<longrightarrow>
            (\<exists>e. GrokEngine_executeTrade now signalId w = (Inl e, w)))"
proof (cases "source sg = ''GROK_ENGINE'' \<and> status sg = Some ''pending''")
  case True
  then have g: "source sg = ''GROK_ENGINE''" and p: "status sg = Some ''pending''" by simp_all
  show ?thesis
    by (simp add: executeTrade_pending [OF assms g p] g p findByPk_signal_update [OF assms])
next
  case False
  then show ?thesis
    using assms by (auto simp: GrokEngine_executeTrade_def)
qed

theorem execution_checks_status_only_witness:
  "(let stale = opinion ''g1'' ''GROK_ENGINE'' ''buy'' 80;
        closed = (opinion ''g2'' ''GROK_ENGINE'' ''buy'' 80)\<lparr>status := Some ''cancelled''\<rparr>;
        w = store_of [stale, closed]
    in findByPk ''g1'' w = Some stale \<and> findByPk ''g2'' w = Some closed \<and>
       expiresAt stale = Some 1000 \<and>
       map_option status (findByPk ''g1'' (snd (GrokEngine_executeTrade 2000 ''g1'' w))) =
         Some (Some ''executed'') \<and>
       map_option status (findByPk ''g2'' (snd (GrokEngine_executeTrade 2000 ''g2'' w))) =
         Some (Some ''cancelled'') \<and>
       (\<exists>e. GrokEngine_executeTrade 2000 ''g2'' w = (Inl e, w)))"
proof -
  let ?stale = "opinion ''g1'' ''GROK_ENGINE'' ''buy'' 80"
  let ?closed = "(opinion ''g2'' ''GROK_ENGINE'' ''buy'' 80)\<lparr>status := Some ''cancelled''\<rparr>"
  let ?w = "store_of [?stale, ?closed]"
  have f1: "findByPk ''g1'' ?w = Some ?stale" and f2: "findByPk ''g2'' ?w = Some ?closed"
    by (simp_all add: findByPk_def store_of_def opinion_def)
  have p: "source ?stale = ''GROK_ENGINE'' \<and> status ?stale = Some ''pending''"
    "\<not> js_lt (confidence ?stale) (Fin 75)" "expiresAt ?stale = Some 1000"
    by (simp_all add: opinion_def js_lt_def)
  have s: "status ?closed \<noteq> Some ''pending''" "status ?closed = Some ''cancelled''" by simp_all
  from execution_checks_status_only [OF f1, of 2000] execution_checks_status_only [OF f2, of 2000]
    f1 f2 p s
  show ?thesis
    by (simp add: Let_def)
qed

text \<open>
  The claim C4 as stated fails: a pending signal of the engine that expired at time 1000
  is executed at time 2000.
\<close>

theorem expired_pending_signal_is_executed:
  "expiresAt (opinion ''g1'' ''GROK_ENGINE'' ''buy'' 80) = Some 1000 \<and>
   GrokEngine_executeTrade 2000 ''g1'' (store_of [opinion ''g1'' ''GROK_ENGINE'' ''buy'' 80]) =
     (Inr (Executed ''g1'' ''buy'' ''BTC'' (Some (Fin 50000)) (Some (Fin 80)) 2000),
      store_of [(opinion ''g1'' ''GROK_ENGINE'' ''buy'' 80)\<lparr>status := Some ''executed''\<rparr>])"
  by (simp add: GrokEngine_executeTrade_def findByPk_def store_of_def opinion_def
      signal_update_def js_lt_def)

text \<open>
  C7. At dispatch a pending signal of the engine with a confidence below 75 is cancelled,
  with the reason \<open>Low confidence\<close> in its metadata, and the answer declines the
  execution; with a confidence of 75 or more it is executed.
\<close>

theorem dispatch_gate:
  assumes "findByPk signalId w = Some sg" and "source sg = ''GROK_ENGINE''"
    and "status sg = Some ''pending''" and "confidence sg = Fin c"
  shows "(c < 75 \<longrightarrow>
            (let sg' = sg\<lparr>status := Some ''cancelled'',
                         metadata := AList.update ''reason'' (JStr ''Low confidence'') (metadata sg)\<rparr>
             in GrokEngine_executeTrade now signalId w =
                  (Inr (Declined ''Signal confidence too low for execution''), signal_update sg' w) \<and>
                findByPk signalId (signal_update sg' w) = Some sg' \<and>
                status sg' = Some ''cancelled'' \<and>
                map_of (metadata sg') ''reason'' = Some (JStr ''Low confidence''))) \<and>
         (75 \<le> c \<longrightarrow>
            (let sg' = sg\<lparr>status := Some ''executed''\<rparr>
             in GrokEngine_executeTrade now signalId w =
                  (Inr (Executed signalId (action sg) (symbol sg) (price sg) (Some (Fin c)) now),
                   signal_update sg' w) \<and>
                findByPk signalId (signal_update sg' w) = Some sg' \<and>
                status sg' = Some ''executed''))"
  using assms(4)
  by (simp add: executeTrade_pending [OF assms(1-3)] findByPk_signal_update [OF assms(1)]
      js_lt_def Let_def update_conv)

theorem dispatch_gate_witness:
  "(let low = opinion ''g1'' ''GROK_ENGINE'' ''buy'' 60;
        high = opinion ''g2'' ''GROK_ENGINE'' ''sell'' 75;
        w = store_of [low, high]
    in findByPk ''g1'' w = Some low \<and> findByPk ''g2'' w = Some high \<and>
       fst (GrokEngine_executeTrade 2000 ''g1'' w) =
         Inr (Declined ''Signal confidence too low for execution'') \<and>
       map status (rows (snd (GrokEngine_executeTrade 2000 ''g1'' w))) =
         [Some ''cancelled'', Some ''pending''] \<and>
       map metadata (rows (snd (GrokEngine_executeTrade 2000 ''g1'' w))) =
         [[(''reason'', JStr ''Low confidence'')], []] \<and>
       fst (GrokEngine_executeTrade 2000 ''g2'' w) =
         Inr (Executed ''g2'' ''sell'' ''BTC'' (Some (Fin 50000)) (Some (Fin 75)) 2000) \<and>
       map status (rows (snd (GrokEngine_executeTrade 2000 ''g2'' w))) =
         [Some ''pending'', Some ''executed''])"
proof -
  let ?low = "opinion ''g1'' ''GROK_ENGINE'' ''buy'' 60"
  let ?high = "opinion ''g2'' ''GROK_ENGINE'' ''sell'' 75"
  let ?w = "store_of [?low, ?high]"
  have f1: "findByPk ''g1'' ?w = Some ?low" and f2: "findByPk ''g2'' ?w = Some ?high"
    by (simp_all add: findByPk_def store_of_def opinion_def)
  have a: "source ?low = ''GROK_ENGINE''" "status ?low = Some ''pending''"
    "confidence ?low = Fin 60" "source ?high = ''GROK_ENGINE''"
    "status ?high = Some ''pending''" "confidence ?high = Fin 75"
    by (simp_all add: opinion_def)
  from dispatch_gate [OF f1 a(1-3), of 2000] dispatch_gate [OF f2 a(4-6), of 2000] f1 f2
  show ?thesis
    by (simp add: Let_def signal_update_def store_of_def opinion_def)
qed

section \<open>The composite signal\<close>

lemma create_Inr:
  assumes "TradingSignal_create a w = (Inr s, w')"
  shows "validate a" and "rows w' = rows w @ [s]"
    and "symbol s = symbol a" and "action s = action a" and "confidence s = confidence a"
    and "source s = source a"
    and "status s = (case status a of None \<Rightarrow> Some ''pending'' | Some t \<Rightarrow> Some t)"
    and "metadata s = metadata a" and "id' s = uuids w 0"
  using assms
  by (auto simp: TradingSignal_create_def uuidv4_def Let_def split: if_splits)

lemma create_Inl:
  assumes "TradingSignal_create a w = (Inl e, w')"
  shows "rows w' = rows w"
  using assms
  by (auto simp: TradingSignal_create_def uuidv4_def Let_def split: if_splits)

lemma fused_action_enumerated: "fused_action (weighted_decision signals) \<in> set ACTIONS"
  by (simp add: weighted_decision_def ACTIONS_def Let_def split: prod.splits)

lemma create_valid_fresh:
  assumes "validate a" and "find (\<lambda>x. id' x = uuids w 0) (rows w) = None"
  shows "\<exists>s w'. TradingSignal_create a w = (Inr s, w') \<and> id' s = uuids w 0"
  using assms by (simp add: TradingSignal_create_def uuidv4_def Let_def)

lemma grok_attrs_valid:
  "validate (grok_attrs now smb signals first (weighted_decision signals)) \<longleftrightarrow>
     confidence_in_range (fused_confidence (weighted_decision signals))"
  using fused_action_enumerated [of signals]
  by (simp add: validate_def grok_attrs_def SOURCES_def STATUSES_def)

lemma analyzeMarket_cases:
  "GrokEngine_analyzeMarket now smb cyberMetricsSignal twitterSignals patternSignalId w =
     (case collect_signals smb cyberMetricsSignal twitterSignals patternSignalId w of
        [] \<Rightarrow> (Inr (Unsuccessful ''No valid signals found''), w)
      | first # rest \<Rightarrow>
          (case TradingSignal_create
                  (grok_attrs now smb (first # rest) first (weighted_decision (first # rest))) w of
             (Inl e, w') \<Rightarrow> (Inl (Rethrown ''Market analysis failed: '' e), w')
           | (Inr g, w') \<Rightarrow>
               (Inr (Successful (fused_action (weighted_decision (first # rest)))
                       (fused_confidence (weighted_decision (first # rest))) (id' g)
                       (length (first # rest))), w')))"
proof (cases "collect_signals smb cyberMetricsSignal twitterSignals patternSignalId w")
  case Nil
  then show ?thesis by (simp add: GrokEngine_analyzeMarket_def fuse_def)
next
  case (Cons first rest)
  then show ?thesis by (simp add: GrokEngine_analyzeMarket_def fuse_def Let_def)
qed

lemma analyzeMarket_succeeds:
  assumes "collect_signals smb cyberMetricsSignal twitterSignals patternSignalId w = signals"
    and "signals \<noteq> []"
    and "confidence_in_range (fused_confidence (weighted_decision signals))"
    and "find (\<lambda>x. id' x = uuids w 0) (rows w) = None"
  shows "fst (GrokEngine_analyzeMarket now smb cyberMetricsSignal twitterSignals patternSignalId w) =
           Inr (Successful (fused_action (weighted_decision signals))
                  (fused_confidence (weighted_decision signals)) (uuids w 0) (length signals))"
proof -
  from assms(2) obtain first rest where l: "signals = first # rest" by (cases signals) auto
  let ?a = "grok_attrs now smb signals first (weighted_decision signals)"
  have "validate ?a" using assms(3) by (simp add: grok_attrs_valid)
  from create_valid_fresh [OF this assms(4)] obtain g w' where
    "TradingSignal_create ?a w = (Inr g, w')" and "id' g = uuids w 0" by blast
  then show ?thesis
    by (simp add: analyzeMarket_cases assms(1) l)
qed

lemma analyzeMarket_success_row:
  assumes "collect_signals smb cyberMetricsSignal twitterSignals patternSignalId w = signals"
    and "fst (GrokEngine_analyzeMarket now smb cyberMetricsSignal twitterSignals patternSignalId w) =
           Inr (Successful a c i n)"
  shows "a = fused_action (weighted_decision signals) \<and>
         c = fused_confidence (weighted_decision signals) \<and>
         n = length signals \<and> signals \<noteq> [] \<and>
         (\<exists>g. rows (snd (GrokEngine_analyzeMarket now smb cyberMetricsSignal twitterSignals
                            patternSignalId w)) = rows w @ [g] \<and>
              id' g = i \<and> symbol g = smb \<and> source g = ''GROK_ENGINE'' \<and>
              status g = Some ''pending'' \<and> action g = a \<and>
              map_of (metadata g) ''signalIds'' = Some (JArr (map (\<lambda>sg. JStr (id' sg)) signals)) \<and>
              map_of (metadata g) ''buyWeight'' = Some (JNum (spec_buyWeight signals)) \<and>
              map_of (metadata g) ''sellWeight'' = Some (JNum (spec_sellWeight signals)) \<and>
              map_of (metadata g) ''holdWeight'' = Some (JNum (spec_holdWeight signals)))"
proof (cases signals)
  case Nil
  with assms show ?thesis by (simp add: analyzeMarket_cases)
next
  case (Cons first rest)
  let ?a = "grok_attrs now smb signals first (weighted_decision signals)"
  obtain r w1 where c: "TradingSignal_create ?a w = (r, w1)"
    by (cases "TradingSignal_create ?a w")
  show ?thesis
  proof (cases r)
    case (Inl e)
    with assms c Cons show ?thesis by (simp add: analyzeMarket_cases)
  next
    case (Inr g)
    with c have c': "TradingSignal_create ?a w = (Inr g, w1)" by simp
    have m: "metadata g =
       [(''signalSources'', JArr (map (\<lambda>sg. JStr (source sg)) signals)),
        (''signalIds'', JArr (map (\<lambda>sg. JStr (id' sg)) signals)),
        (''buyWeight'', JNum (spec_buyWeight signals)),
        (''sellWeight'', JNum (spec_sellWeight signals)),
        (''holdWeight'', JNum (spec_holdWeight signals))]"
      using create_Inr(8) [OF c'] by (simp add: grok_attrs_def weighted_decision_weights)
    have f: "symbol g = smb" "source g = ''GROK_ENGINE''" "status g = Some ''pending''"
      "action g = fused_action (weighted_decision signals)"
      using create_Inr(3,4,6,7) [OF c'] by (simp_all add: grok_attrs_def)
    have r: "GrokEngine_analyzeMarket now smb cyberMetricsSignal twitterSignals patternSignalId w =
        (Inr (Successful (fused_action (weighted_decision signals))
                (fused_confidence (weighted_decision signals)) (id' g) (length signals)), w1)"
      using c' Cons by (simp add: analyzeMarket_cases assms(1))
    from assms(2) r have e: "a = fused_action (weighted_decision signals)"
      "c = fused_confidence (weighted_decision signals)" "i = id' g" "n = length signals"
      by simp_all
    have "rows w1 = rows w @ [g]" by (rule create_Inr(2) [OF c'])
    with r e f m Cons show ?thesis by simp
  qed
qed

text \<open>
  Rounding can leave the hold weight \<open>1 - buyWeight - sellWeight\<close> below zero: with
  buy 4, sell 5 and buy 1 both weights are the double above one half, the confidence of
  the hold decision is negative, and the creation of the composite signal is rejected.
\<close>

lemma rounding_residue_is_rejected:
  "weighted_decision [opinion ''c1'' ''CYBER_METRICS'' ''buy'' 4,
                      opinion ''t1'' ''TWITTER_MONITOR'' ''sell'' 5,
                      opinion ''p1'' ''DEEPSEEK_AI'' ''buy'' 1] =
     \<lparr> fused_action = ''hold'', fused_confidence = Fin (- (25 / 1125899906842624)),
       buyWeight = Fin (4503599627370497 / 9007199254740992), sellWeight = Fin (4503599627370497 / 9007199254740992),
       holdWeight = Fin (- (1 / 4503599627370496)) \<rparr>"
  "GrokEngine_analyzeMarket 2000 ''BTC'' (Some (opinion ''c1'' ''CYBER_METRICS'' ''buy'' 4))
     [opinion ''t1'' ''TWITTER_MONITOR'' ''sell'' 5] (Some ''p1'')
     (store_of [opinion ''p1'' ''DEEPSEEK_AI'' ''buy'' 1]) =
     (Inl (Rethrown ''Market analysis failed: '' SequelizeValidationError),
      \<lparr> rows = [opinion ''p1'' ''DEEPSEEK_AI'' ''buy'' 1],
        uuids = (\<lambda>n. example_uuids (Suc n)) \<rparr>)"
proof -
  show d: "weighted_decision [opinion ''c1'' ''CYBER_METRICS'' ''buy'' 4,
                      opinion ''t1'' ''TWITTER_MONITOR'' ''sell'' 5,
                      opinion ''p1'' ''DEEPSEEK_AI'' ''buy'' 1] =
     \<lparr> fused_action = ''hold'', fused_confidence = Fin (- (25 / 1125899906842624)),
       buyWeight = Fin (4503599627370497 / 9007199254740992), sellWeight = Fin (4503599627370497 / 9007199254740992),
       holdWeight = Fin (- (1 / 4503599627370496)) \<rparr>"
    by (simp add: weighted_decision_def weigh_def opinion_def js_sub_def Let_def rnd_evals)
  have c: "collect_signals ''BTC'' (Some (opinion ''c1'' ''CYBER_METRICS'' ''buy'' 4))
     [opinion ''t1'' ''TWITTER_MONITOR'' ''sell'' 5] (Some ''p1'')
     (store_of [opinion ''p1'' ''DEEPSEEK_AI'' ''buy'' 1]) =
     [opinion ''c1'' ''CYBER_METRICS'' ''buy'' 4, opinion ''t1'' ''TWITTER_MONITOR'' ''sell'' 5,
      opinion ''p1'' ''DEEPSEEK_AI'' ''buy'' 1]"
    by (simp add: collect_signals_def findByPk_def store_of_def opinion_def)
  show "GrokEngine_analyzeMarket 2000 ''BTC'' (Some (opinion ''c1'' ''CYBER_METRICS'' ''buy'' 4))
     [opinion ''t1'' ''TWITTER_MONITOR'' ''sell'' 5] (Some ''p1'')
     (store_of [opinion ''p1'' ''DEEPSEEK_AI'' ''buy'' 1]) =
     (Inl (Rethrown ''Market analysis failed: '' SequelizeValidationError),
      \<lparr> rows = [opinion ''p1'' ''DEEPSEEK_AI'' ''buy'' 1],
        uuids = (\<lambda>n. example_uuids (Suc n)) \<rparr>)"
    unfolding analyzeMarket_cases c
    by (simp add: d TradingSignal_create_def uuidv4_def validate_def grok_attrs_def
        confidence_in_range_def store_of_def Let_def)
qed

text \<open>
  C5. Whenever \<open>analyzeMarket\<close> answers with a decision, the store has exactly one new row
  and every other row is as it was: a signal with the id of the answer, of the source
  \<open>GROK_ENGINE\<close> (the composite source) and with the status pending, that carries the
  decided action and, in its metadata, the ids of the collected signals in their order
  and the three normalised weights. It answers with the decision whenever it has
  collected a signal, the confidence of the decision lies in the range the store accepts
  and the primary key is new to the table.
\<close>

theorem analyzeMarket_persists_composite:
  "(let signals = collect_signals smb cyberMetricsSignal twitterSignals patternSignalId w;
        f = weighted_decision signals;
        r = GrokEngine_analyzeMarket now smb cyberMetricsSignal twitterSignals patternSignalId w
    in (signals \<noteq> [] \<and> confidence_in_range (fused_confidence f) \<and>
        find (\<lambda>x. id' x = uuids w 0) (rows w) = None \<longrightarrow>
          fst r = Inr (Successful (fused_action f) (fused_confidence f) (uuids w 0)
                         (length signals))) \<and>
       (\<forall>a c i n. fst r = Inr (Successful a c i n) \<longrightarrow>
          a = fused_action f \<and> c = fused_confidence f \<and> n = length signals \<and>
          signals \<noteq> [] \<and>
          (\<exists>g. rows (snd r) = rows w @ [g] \<and>
               id' g = i \<and> symbol g = smb \<and> source g = ''GROK_ENGINE'' \<and>
               status g = Some ''pending'' \<and> action g = a \<and>
               map_of (metadata g) ''signalIds'' =
                 Some (JArr (map (\<lambda>sg. JStr (id' sg)) signals)) \<and>
               map_of (metadata g) ''buyWeight'' = Some (JNum (spec_buyWeight signals)) \<and>
               map_of (metadata g) ''sellWeight'' = Some (JNum (spec_sellWeight signals)) \<and>
               map_of (metadata g) ''holdWeight'' = Some (JNum (spec_holdWeight signals)))))"
  unfolding Let_def
  using analyzeMarket_succeeds [OF refl, of smb cyberMetricsSignal twitterSignals patternSignalId w now]
    analyzeMarket_success_row [OF refl, of now smb cyberMetricsSignal twitterSignals patternSignalId w]
  by blast

theorem analyzeMarket_persists_composite_witness:
  "(let p = opinion ''p1'' ''DEEPSEEK_AI'' ''sell'' 50;
        c = opinion ''c1'' ''CYBER_METRICS'' ''buy'' 90;
        t = opinion ''t1'' ''TWITTER_MONITOR'' ''buy'' 80;
        w = store_of [c, t, p];
        r = GrokEngine_analyzeMarket 2000 ''BTC'' (Some c) [t] (Some ''p1'') w
    in collect_signals ''BTC'' (Some c) [t] (Some ''p1'') w = [c, t, p] \<and>
       confidence_in_range (fused_confidence (weighted_decision [c, t, p])) \<and>
       find (\<lambda>x. id' x = uuids w 0) (rows w) = None \<and>
       fst r = Inr (Successful ''buy'' (Fin (5437584777364945 / 70368744177664)) ''uuid-'' 3) \<and>
       (\<exists>g. rows (snd r) = [c, t, p, g] \<and> id' g = ''uuid-'' \<and>
            source g = ''GROK_ENGINE'' \<and> status g = Some ''pending'' \<and> action g = ''buy'' \<and>
            map_of (metadata g) ''signalIds'' =
              Some (JArr [JStr ''c1'', JStr ''t1'', JStr ''p1''])))"
proof -
  let ?p = "opinion ''p1'' ''DEEPSEEK_AI'' ''sell'' 50"
  let ?c = "opinion ''c1'' ''CYBER_METRICS'' ''buy'' 90"
  let ?t = "opinion ''t1'' ''TWITTER_MONITOR'' ''buy'' 80"
  let ?w = "store_of [?c, ?t, ?p]"
  let ?r = "GrokEngine_analyzeMarket 2000 ''BTC'' (Some ?c) [?t] (Some ''p1'') ?w"
  have h1: "collect_signals ''BTC'' (Some ?c) [?t] (Some ''p1'') ?w = [?c, ?t, ?p]"
    by (simp add: collect_signals_def findByPk_def store_of_def opinion_def)
  have d: "weighted_decision [?c, ?t, ?p] =
     \<lparr> fused_action = ''buy'', fused_confidence = Fin (5437584777364945 / 70368744177664),
       buyWeight = Fin (3480054257513565 / 4503599627370496), sellWeight = Fin (8188362958855447 / 36028797018963968),
       holdWeight = Fin (1 / 36028797018963968) \<rparr>"
    by (simp add: weighted_decision_def weigh_def opinion_def js_sub_def Let_def rnd_evals)
  have h3: "confidence_in_range (fused_confidence (weighted_decision [?c, ?t, ?p]))"
    by (simp add: d confidence_in_range_def)
  have h5: "find (\<lambda>x. id' x = uuids ?w 0) (rows ?w) = None"
    by (simp add: store_of_def opinion_def example_uuids_def)
  have u: "uuids ?w 0 = ''uuid-''" by (simp add: store_of_def example_uuids_def)
  have i: "map (\<lambda>sg. JStr (id' sg)) [?c, ?t, ?p] = [JStr ''c1'', JStr ''t1'', JStr ''p1'']"
    by (simp add: opinion_def)
  have rw: "rows ?w = [?c, ?t, ?p]" by (simp add: store_of_def)
  note t = analyzeMarket_persists_composite
    [of "''BTC''" "Some ?c" "[?t]" "Some ''p1''" ?w 2000, unfolded Let_def h1]
  note t1 = t [THEN conjunct1, rule_format]
  note t2 = t [THEN conjunct2, rule_format]
  have "fst ?r = Inr (Successful (fused_action (weighted_decision [?c, ?t, ?p]))
                  (fused_confidence (weighted_decision [?c, ?t, ?p])) (uuids ?w 0)
                  (length [?c, ?t, ?p]))"
    using h3 h5 by (intro t1) simp_all
  then have s: "fst ?r = Inr (Successful ''buy'' (Fin (5437584777364945 / 70368744177664)) ''uuid-'' 3)"
    by (simp add: d u)
  from t2 [OF s] obtain g where "rows (snd ?r) = rows ?w @ [g]" "id' g = ''uuid-''"
    "source g = ''GROK_ENGINE''" "status g = Some ''pending''" "action g = ''buy''"
    "map_of (metadata g) ''signalIds'' = Some (JArr (map (\<lambda>sg. JStr (id' sg)) [?c, ?t, ?p]))"
    by blast
  then have "\<exists>g. rows (snd ?r) = [?c, ?t, ?p, g] \<and> id' g = ''uuid-'' \<and>
            source g = ''GROK_ENGINE'' \<and> status g = Some ''pending'' \<and> action g = ''buy'' \<and>
            map_of (metadata g) ''signalIds'' =
              Some (JArr [JStr ''c1'', JStr ''t1'', JStr ''p1''])"
    unfolding i rw by auto
  with h1 h3 h5 s show ?thesis
    unfolding Let_def by blast
qed

section \<open>No valid signals\<close>

text \<open>
  C6, as the code has it. When no valid signal is collected, \<open>analyzeMarket\<close> does not
  throw and decides nothing: it answers \<open>{success: false, message: 'No valid signals
  found'}\<close>, without action and confidence, and leaves the store as it was.
\<close>

theorem analyzeMarket_without_signals:
  assumes "collect_signals smb cyberMetricsSignal twitterSignals patternSignalId w = []"
  shows "GrokEngine_analyzeMarket now smb cyberMetricsSignal twitterSignals patternSignalId w =
           (Inr (Unsuccessful ''No valid signals found''), w)"
  using assms by (simp add: GrokEngine_analyzeMarket_def fuse_def)

theorem analyzeMarket_without_signals_witness:
  "collect_signals ''BTC'' None [opinion ''t1'' ''TWITTER_MONITOR'' ''buy'' 80\<lparr>symbol := ''ETH''\<rparr>]
     None (store_of []) = [] \<and>
   GrokEngine_analyzeMarket 2000 ''BTC'' None
     [opinion ''t1'' ''TWITTER_MONITOR'' ''buy'' 80\<lparr>symbol := ''ETH''\<rparr>] None (store_of []) =
     (Inr (Unsuccessful ''No valid signals found''), store_of [])"
proof -
  have h: "collect_signals ''BTC'' None
      [opinion ''t1'' ''TWITTER_MONITOR'' ''buy'' 80\<lparr>symbol := ''ETH''\<rparr>] None (store_of []) = []"
    by (simp add: collect_signals_def opinion_def)
  from analyzeMarket_without_signals [OF h, of 2000] h show ?thesis by simp
qed

text \<open>The claim C6 as stated fails: without signals the answer is no hold decision.\<close>

theorem no_signals_is_no_hold_decision:
  "\<not> hold_with_zero_confidence
       (fst (GrokEngine_analyzeMarket 2000 ''BTC'' None [] None (store_of [])))"
  by (simp add: GrokEngine_analyzeMarket_def fuse_def collect_signals_def
      hold_with_zero_confidence_def)

section \<open>The signals of TWITTER\_MONITOR\<close>

lemma js_min_cap: "js_min x (Fin b) = Fin c \<Longrightarrow> c \<le> b"
  by (cases x) (auto simp: js_lt_def split: if_splits)

lemma sentiment_action_cases:
  "sentiment_action avg = ''buy'' \<or> sentiment_action avg = ''sell'' \<or> sentiment_action avg = ''hold''"
  by (simp add: sentiment_action_def)

lemma twitter_signal_capped:
  "twitter_signal sg \<Longrightarrow>
   (action sg = ''buy'' \<or> action sg = ''sell'') \<and> action sg \<noteq> ''hold'' \<and>
   source sg = ''TWITTER_MONITOR'' \<and> (\<exists>c. confidence sg = Fin c \<and> c \<le> 95)"
  by (cases "confidence sg") (auto simp: twitter_signal_def)

lemma created_twitter_signal:
  assumes "TradingSignal_create (twitter_attrs now smb l) w = (Inr sg, w')"
    and "sentiment_action (avgSentiment l) \<noteq> ''hold''"
  shows "twitter_signal sg" and "symbol sg = smb"
proof -
  let ?m = "js_min (js_mul (js_abs (avgSentiment l)) (Fin 100)) (Fin 95)"
  have k: "confidence sg = ?m"
    using create_Inr(5) [OF assms(1)] by (simp add: twitter_attrs_def Let_def)
  from create_Inr(1) [OF assms(1)] have "confidence_in_range ?m"
    by (simp add: validate_def twitter_attrs_def Let_def)
  then obtain c where c: "?m = Fin c" "0 \<le> c"
    by (cases ?m) (auto simp: confidence_in_range_def)
  from js_min_cap [OF c(1)] have "c \<le> 95" .
  moreover have "action sg = sentiment_action (avgSentiment l)"
    and "source sg = ''TWITTER_MONITOR''"
    using create_Inr(4,6) [OF assms(1)] by (simp_all add: twitter_attrs_def Let_def)
  ultimately show "twitter_signal sg"
    using k c assms(2) sentiment_action_cases [of "avgSentiment l"]
    by (auto simp: twitter_signal_def)
  show "symbol sg = smb"
    using create_Inr(3) [OF assms(1)] by (simp add: twitter_attrs_def Let_def)
qed

text \<open>The loop: what it returns is what it was given followed by what it created.\<close>

lemma generate_signals_Inr:
  "generate_signals now entries acc w = (Inr signals, w') \<Longrightarrow>
   \<exists>new. signals = acc @ new \<and> rows w' = rows w @ new \<and> list_all twitter_signal new \<and>
         map symbol new =
           map fst (filter (\<lambda>(k, l). 3 \<le> length l \<and> sentiment_action (avgSentiment l) \<noteq> ''hold'')
                      entries)"
proof (induction now entries acc w rule: generate_signals.induct)
  case (1 now signals w)
  then show ?case by simp
next
  case (2 now smb l rest acc w)
  show ?case
  proof (cases "3 \<le> length l \<and> sentiment_action (avgSentiment l) \<noteq> ''hold''")
    case False
    with "2.prems" have "generate_signals now rest acc w = (Inr signals, w')" by auto
    from "2.IH"(2) [OF False this] False show ?thesis by auto
  next
    case True
    obtain r w1 where c: "TradingSignal_create (twitter_attrs now smb l) w = (r, w1)"
      by (cases "TradingSignal_create (twitter_attrs now smb l) w")
    show ?thesis
    proof (cases r)
      case (Inl e)
      with "2.prems" True c show ?thesis by simp
    next
      case (Inr sg)
      with "2.prems" True c have g: "generate_signals now rest (acc @ [sg]) w1 = (Inr signals, w')"
        by simp
      from c Inr have c': "TradingSignal_create (twitter_attrs now smb l) w = (Inr sg, w1)" by simp
      from "2.IH"(1) [OF True c [symmetric] Inr g] obtain new where
        n: "signals = (acc @ [sg]) @ new" "rows w' = rows w1 @ new" "list_all twitter_signal new"
           "map symbol new =
              map fst (filter (\<lambda>(k, l). 3 \<le> length l \<and> sentiment_action (avgSentiment l) \<noteq> ''hold'')
                         rest)"
        by auto
      from True have h: "sentiment_action (avgSentiment l) \<noteq> ''hold''" by simp
      have "signals = acc @ (sg # new)" using n(1) by simp
      moreover have "rows w' = rows w @ (sg # new)" using n(2) create_Inr(2) [OF c'] by simp
      moreover have "list_all twitter_signal (sg # new)"
        using n(3) created_twitter_signal(1) [OF c' h] by simp
      moreover have "map symbol (sg # new) =
          map fst (filter (\<lambda>(k, l). 3 \<le> length l \<and> sentiment_action (avgSentiment l) \<noteq> ''hold'')
                     ((smb, l) # rest))"
        using n(4) created_twitter_signal(2) [OF c' h] True by simp
      ultimately show ?thesis by blast
    qed
  qed
qed

text \<open>Whatever the end of the loop is, the rows it added are signals it created.\<close>

lemma generate_signals_rows:
  "\<exists>new. rows (snd (generate_signals now entries acc w)) = rows w @ new \<and>
         list_all twitter_signal new"
proof (induction now entries acc w rule: generate_signals.induct)
  case (1 now signals w)
  show ?case by simp
next
  case (2 now smb l rest acc w)
  show ?case
  proof (cases "3 \<le> length l \<and> sentiment_action (avgSentiment l) \<noteq> ''hold''")
    case False
    with "2.IH"(2) show ?thesis by auto
  next
    case True
    then have h: "sentiment_action (avgSentiment l) \<noteq> ''hold''" by simp
    obtain r w1 where c: "TradingSignal_create (twitter_attrs now smb l) w = (r, w1)"
      by (cases "TradingSignal_create (twitter_attrs now smb l) w")
    show ?thesis
    proof (cases r)
      case (Inl e)
      with c create_Inl [of "twitter_attrs now smb l" w e w1] True show ?thesis by simp
    next
      case (Inr sg)
      with c have c': "TradingSignal_create (twitter_attrs now smb l) w = (Inr sg, w1)" by simp
      from "2.IH"(1) [OF True c [symmetric] Inr] obtain new where
        n: "rows (snd (generate_signals now rest (acc @ [sg]) w1)) = rows w1 @ new"
           "list_all twitter_signal new"
        by blast
      have "rows (snd (generate_signals now ((smb, l) # rest) acc w)) = rows w @ (sg # new)"
        using n(1) create_Inr(2) [OF c'] True c' by simp
      moreover have "list_all twitter_signal (sg # new)"
        using n(2) created_twitter_signal(1) [OF c' h] by simp
      ultimately show ?thesis by blast
    qed
  qed
qed

text \<open>
  C10. Every signal that \<open>analyzeTweets\<close> creates says buy or sell, never hold, and has a
  confidence of at most 95: this holds for all the rows the call adds to the store,
  whatever its end. When the call returns, the returned signals are these rows, one for
  each symbol with at least three tweets whose average sentiment is not hold, in the order
  of the symbols; a symbol with a hold sentiment gets none.
\<close>

theorem twitter_signals_directional_and_capped:
  "\<exists>new. rows (snd (analyzeTweets now tweets w)) = rows w @ new \<and>
         (\<forall>sg \<in> set new.
            (action sg = ''buy'' \<or> action sg = ''sell'') \<and> action sg \<noteq> ''hold'' \<and>
            source sg = ''TWITTER_MONITOR'' \<and>
            (\<exists>c. confidence sg = Fin c \<and> c \<le> 95)) \<and>
         (\<forall>signals. fst (analyzeTweets now tweets w) = Inr signals \<longrightarrow>
            signals = new \<and>
            map symbol signals =
              map fst (filter (\<lambda>(k, l). 3 \<le> length l \<and> sentiment_action (avgSentiment l) \<noteq> ''hold'')
                         (group_by_symbol tweets)))"
proof -
  let ?g = "generate_signals now (group_by_symbol tweets) [] w"
  have rw: "rows (snd (analyzeTweets now tweets w)) = rows (snd ?g)"
    by (auto simp: analyzeTweets_def split: prod.splits sum.splits)
  from generate_signals_rows [of now "group_by_symbol tweets" "[]" w] obtain new where
    n: "rows (snd ?g) = rows w @ new" "list_all twitter_signal new"
    by blast
  have a: "\<forall>sg \<in> set new.
            (action sg = ''buy'' \<or> action sg = ''sell'') \<and> action sg \<noteq> ''hold'' \<and>
            source sg = ''TWITTER_MONITOR'' \<and>
            (\<exists>c. confidence sg = Fin c \<and> c \<le> 95)"
    using n(2) twitter_signal_capped by (simp add: list_all_iff)
  have b: "\<forall>signals. fst (analyzeTweets now tweets w) = Inr signals \<longrightarrow>
            signals = new \<and>
            map symbol signals =
              map fst (filter (\<lambda>(k, l). 3 \<le> length l \<and> sentiment_action (avgSentiment l) \<noteq> ''hold'')
                         (group_by_symbol tweets))"
  proof (intro allI impI)
    fix signals assume "fst (analyzeTweets now tweets w) = Inr signals"
    then have "fst ?g = Inr signals"
      by (auto simp: analyzeTweets_def split: prod.splits sum.splits)
    then have "?g = (Inr signals, snd ?g)" by (simp add: prod_eq_iff)
    from generate_signals_Inr [OF this] n(1)
    show "signals = new \<and>
            map symbol signals =
              map fst (filter (\<lambda>(k, l). 3 \<le> length l \<and> sentiment_action (avgSentiment l) \<noteq> ''hold'')
                         (group_by_symbol tweets))"
      by auto
  qed
  from rw n(1) have "rows (snd (analyzeTweets now tweets w)) = rows w @ new" by simp
  with a b show ?thesis by (intro exI [of _ new] conjI)
qed

theorem twitter_signals_directional_and_capped_witness:
  "(let tweets = [example_tweet ''elonmusk'' ''positive'' (31 / 32) [''BTC'', ''ETH''],
                  example_tweet ''cz_binance'' ''positive'' (31 / 32) [''BTC''],
                  example_tweet ''aantonop'' ''positive'' (31 / 32) [''BTC'', ''ETH''],
                  example_tweet ''APompliano'' ''negative'' (31 / 32) [''ETH''],
                  example_tweet ''CryptoCred'' ''negative'' (31 / 32) [''ETH'', ''SOL'']]
    in \<exists>signals.
         fst (analyzeTweets 2000 tweets (store_of [])) = Inr signals \<and>
         rows (snd (analyzeTweets 2000 tweets (store_of []))) = signals \<and>
         map symbol signals = [''BTC''] \<and> map action signals = [''buy''] \<and>
         map confidence signals = [Fin 95])"
proof -
  let ?t0 = "example_tweet ''elonmusk'' ''positive'' (31 / 32) [''BTC'', ''ETH'']"
  let ?t1 = "example_tweet ''cz_binance'' ''positive'' (31 / 32) [''BTC'']"
  let ?t2 = "example_tweet ''aantonop'' ''positive'' (31 / 32) [''BTC'', ''ETH'']"
  let ?t3 = "example_tweet ''APompliano'' ''negative'' (31 / 32) [''ETH'']"
  let ?t4 = "example_tweet ''CryptoCred'' ''negative'' (31 / 32) [''ETH'', ''SOL'']"
  let ?tweets = "[?t0, ?t1, ?t2, ?t3, ?t4]"
  let ?r = "analyzeTweets 2000 ?tweets (store_of [])"
  have g: "group_by_symbol ?tweets =
     [(''BTC'', [?t0, ?t1, ?t2]), (''ETH'', [?t0, ?t2, ?t3, ?t4]), (''SOL'', [?t4])]"
    by (simp add: group_by_symbol_def example_tweet_def)
  have a1: "avgSentiment [?t0, ?t1, ?t2] = Fin (31 / 32)"
    and a2: "avgSentiment [?t0, ?t2, ?t3, ?t4] = Fin 0"
    by (simp_all add: avgSentiment_def sentimentSum_def signed_sentiment_def example_tweet_def
        rnd_evals)
  have e: "map_sum id (map (\<lambda>sg. (symbol sg, action sg, confidence sg))) (fst ?r) =
             Inr [(''BTC'', ''buy'', Fin 95)]"
    unfolding analyzeTweets_def g
    by (simp add: a1 a2 sentiment_action_def js_lt_def twitter_attrs_def
        TradingSignal_create_def uuidv4_def validate_def confidence_in_range_def
        ACTIONS_def SOURCES_def STATUSES_def store_of_def Let_def rnd_evals)
  then obtain signals where s: "fst ?r = Inr signals"
    and m: "map (\<lambda>sg. (symbol sg, action sg, confidence sg)) signals = [(''BTC'', ''buy'', Fin 95)]"
    by (cases "fst ?r") auto
  from twitter_signals_directional_and_capped [of 2000 ?tweets "store_of []"] s
  have r: "rows (snd ?r) = signals" by (auto simp: store_of_def)
  from m have p: "map symbol signals = [''BTC'']" "map action signals = [''buy'']"
    "map confidence signals = [Fin 95]" by auto
  have "fst ?r = Inr signals \<and> rows (snd ?r) = signals \<and> map symbol signals = [''BTC''] \<and>
        map action signals = [''buy''] \<and> map confidence signals = [Fin 95]"
    using s r p by simp
  then show ?thesis
    unfolding Let_def by (intro exI [of _ signals])
qed

section \<open>The rows of the store keep the schema\<close>

lemma created_valid:
  assumes "TradingSignal_create a w = (Inr s, w')"
  shows "valid_row s"
  using create_Inr(1,4,5,6,7) [OF assms]
  by (auto simp: valid_row_def validate_def STATUSES_def split: option.splits)

lemma create_rejects:
  assumes "\<not> confidence_in_range (confidence a) \<or> action a \<notin> set ACTIONS \<or>
           source a \<notin> set SOURCES"
  shows "fst (TradingSignal_create a w) = Inl SequelizeValidationError"
    and "rows (snd (TradingSignal_create a w)) = rows w"
  using assms by (auto simp: TradingSignal_create_def uuidv4_def validate_def Let_def)

lemma create_keeps_valid:
  assumes "list_all valid_row (rows w)"
  shows "list_all valid_row (rows (snd (TradingSignal_create a w)))"
proof (cases "TradingSignal_create a w")
  case (Pair r w')
  show ?thesis
  proof (cases r)
    case (Inl e)
    with Pair assms create_Inl [of a w e w'] show ?thesis by simp
  next
    case (Inr s)
    with Pair assms create_Inr(2) [of a w s w'] created_valid [of a w s w'] show ?thesis
      by simp
  qed
qed

lemma update_keeps_valid:
  assumes "list_all valid_row (rows w)" and "valid_row sg'"
  shows "list_all valid_row (rows (signal_update sg' w))"
  using assms by (auto simp: signal_update_def list_all_iff)

lemma found_valid:
  assumes "list_all valid_row (rows w)" and "findByPk i w = Some sg"
  shows "valid_row sg"
proof -
  from assms(2) have "sg \<in> set (rows w)"
    by (auto simp: findByPk_def find_Some_iff)
  with assms(1) show ?thesis by (simp add: list_all_iff)
qed

lemma grok_execute_keeps_valid:
  assumes "list_all valid_row (rows w)"
  shows "list_all valid_row (rows (snd (GrokEngine_executeTrade now i w)))"
proof (cases "findByPk i w")
  case None
  with assms show ?thesis by (simp add: GrokEngine_executeTrade_def)
next
  case (Some sg)
  from found_valid [OF assms Some] have v: "valid_row sg" .
  have c: "valid_row (sg\<lparr>status := Some ''cancelled'',
             metadata := AList.update ''reason'' (JStr ''Low confidence'') (metadata sg)\<rparr>)"
    and e: "valid_row (sg\<lparr>status := Some ''executed''\<rparr>)"
    using v by (simp_all add: valid_row_def STATUSES_def)
  show ?thesis
    using Some assms update_keeps_valid [OF assms c] update_keeps_valid [OF assms e]
    by (simp add: GrokEngine_executeTrade_def)
qed

lemma cyber_execute_keeps_valid:
  assumes "list_all valid_row (rows w)"
  shows "list_all valid_row (rows (snd (CyberMetrics_executeTrade now i w)))"
proof (cases "findByPk i w")
  case None
  with assms show ?thesis by (simp add: CyberMetrics_executeTrade_def)
next
  case (Some sg)
  from found_valid [OF assms Some] have v: "valid_row sg" .
  have e: "valid_row (sg\<lparr>status := Some ''executed''\<rparr>)"
    using v by (simp add: valid_row_def STATUSES_def)
  show ?thesis
    using Some assms update_keeps_valid [OF assms e]
    by (simp add: CyberMetrics_executeTrade_def)
qed

lemma generate_signals_keeps_valid:
  "list_all valid_row (rows w) \<Longrightarrow>
   list_all valid_row (rows (snd (generate_signals now entries acc w)))"
proof (induction now entries acc w rule: generate_signals.induct)
  case (1 now signals w)
  then show ?case by simp
next
  case (2 now smb l rest acc w)
  show ?case
  proof (cases "3 \<le> length l \<and> sentiment_action (avgSentiment l) \<noteq> ''hold''")
    case False
    with "2.IH"(2) "2.prems" show ?thesis by auto
  next
    case True
    obtain r w1 where c: "TradingSignal_create (twitter_attrs now smb l) w = (r, w1)"
      by (cases "TradingSignal_create (twitter_attrs now smb l) w")
    from create_keeps_valid [OF "2.prems", of "twitter_attrs now smb l"] c
    have v1: "list_all valid_row (rows w1)" by simp
    show ?thesis
    proof (cases r)
      case (Inl e)
      with True c v1 show ?thesis by simp
    next
      case (Inr sg)
      from "2.IH"(1) [OF True c [symmetric] Inr v1] True c Inr show ?thesis by simp
    qed
  qed
qed

lemma analyzeTweets_keeps_valid:
  assumes "list_all valid_row (rows w)"
  shows "list_all valid_row (rows (snd (analyzeTweets now tweets w)))"
  using generate_signals_keeps_valid [OF assms, of now "group_by_symbol tweets" "[]"]
  by (auto simp: analyzeTweets_def split: prod.splits sum.splits)

lemma analyzeMarket_keeps_valid:
  assumes "list_all valid_row (rows w)"
  shows "list_all valid_row
           (rows (snd (GrokEngine_analyzeMarket now smb cyberMetricsSignal twitterSignals
                         patternSignalId w)))"
proof (cases "collect_signals smb cyberMetricsSignal twitterSignals patternSignalId w")
  case Nil
  with assms show ?thesis by (simp add: GrokEngine_analyzeMarket_def fuse_def)
next
  case (Cons first rest)
  let ?a = "grok_attrs now smb (first # rest) first (weighted_decision (first # rest))"
  from create_keeps_valid [OF assms, of ?a] show ?thesis
    by (auto simp: GrokEngine_analyzeMarket_def fuse_def Cons Let_def
        split: prod.splits sum.splits)
qed

lemma reachable_valid: "reachable w \<Longrightarrow> list_all valid_row (rows w)"
proof (induction rule: reachable.induct)
  case (empty_table u)
  show ?case by simp
next
  case (created w a)
  then show ?case by (simp add: create_keeps_valid)
next
  case (tweets_analyzed w now tweets)
  then show ?case by (simp add: analyzeTweets_keeps_valid)
next
  case (market_analyzed w now smb cyberMetricsSignal twitterSignals patternSignalId)
  then show ?case by (simp add: analyzeMarket_keeps_valid)
next
  case (grok_executed w now signalId)
  then show ?case by (simp add: grok_execute_keeps_valid)
next
  case (cyber_executed w now signalId)
  then show ?case by (simp add: cyber_execute_keeps_valid)
qed

text \<open>
  C9. Every row of a store the operations can produce has a confidence in \<open>[0, 100]\<close>, an
  action, a source and a status of the declared enumerations. The check is made when the
  signal is created: attributes with a confidence out of the range or with an action or a
  source that is not enumerated are rejected with a validation error and the table stays
  as it was; a signal that is created satisfies the schema and is the one row added.
\<close>

theorem store_keeps_schema:
  assumes "reachable w"
  shows "(\<forall>sg \<in> set (rows w).
            (\<exists>c. confidence sg = Fin c \<and> 0 \<le> c \<and> c \<le> 100) \<and>
            action sg \<in> set ACTIONS \<and> source sg \<in> set SOURCES \<and>
            (\<exists>t \<in> set STATUSES. status sg = Some t)) \<and>
         (\<forall>a. \<not> confidence_in_range (confidence a) \<or> action a \<notin> set ACTIONS \<or>
               source a \<notin> set SOURCES \<longrightarrow>
               fst (TradingSignal_create a w) = Inl SequelizeValidationError \<and>
               rows (snd (TradingSignal_create a w)) = rows w) \<and>
         (\<forall>a s w'. TradingSignal_create a w = (Inr s, w') \<longrightarrow>
               valid_row s \<and> rows w' = rows w @ [s] \<and> reachable w')"
proof (intro conjI ballI allI impI)
  fix sg assume "sg \<in> set (rows w)"
  with reachable_valid [OF assms] have v: "valid_row sg" by (simp add: list_all_iff)
  then show "\<exists>c. confidence sg = Fin c \<and> 0 \<le> c \<and> c \<le> 100"
    by (cases "confidence sg") (auto simp: valid_row_def confidence_in_range_def)
  from v show "action sg \<in> set ACTIONS" and "source sg \<in> set SOURCES"
    by (simp_all add: valid_row_def)
  from v show "\<exists>t \<in> set STATUSES. status sg = Some t"
    by (cases "status sg") (auto simp: valid_row_def)
next
  fix a :: signal_attrs
  assume r: "\<not> confidence_in_range (confidence a) \<or> action a \<notin> set ACTIONS \<or>
             source a \<notin> set SOURCES"
  show "fst (TradingSignal_create a w) = Inl SequelizeValidationError"
    by (rule create_rejects(1) [OF r])
  show "rows (snd (TradingSignal_create a w)) = rows w"
    by (rule create_rejects(2) [OF r])
next
  fix a s w' assume c: "TradingSignal_create a w = (Inr s, w')"
  show "valid_row s" by (rule created_valid [OF c])
  show "rows w' = rows w @ [s]" by (rule create_Inr(2) [OF c])
  from reachable.created [OF assms, of a] c show "reachable w'" by simp
qed

theorem store_keeps_schema_witness:
  "(let good = signal_attrs.truncate (opinion '''' ''CYBER_METRICS'' ''buy'' 80);
        high = good\<lparr>confidence := Fin 150\<rparr>;
        unknown = good\<lparr>action := ''short''\<rparr>;
        w = snd (TradingSignal_create good (store_of []))
    in reachable w \<and>
       map (\<lambda>sg. (id' sg, action sg, confidence sg, source sg, status sg)) (rows w) =
         [(''uuid-'', ''buy'', Fin 80, ''CYBER_METRICS'', Some ''pending'')] \<and>
       list_all valid_row (rows w) \<and>
       fst (TradingSignal_create high w) = Inl SequelizeValidationError \<and>
       rows (snd (TradingSignal_create high w)) = rows w \<and>
       fst (TradingSignal_create unknown w) = Inl SequelizeValidationError \<and>
       rows (snd (TradingSignal_create unknown w)) = rows w)"
proof -
  let ?good = "signal_attrs.truncate (opinion '''' ''CYBER_METRICS'' ''buy'' 80)"
  let ?high = "?good\<lparr>confidence := Fin 150\<rparr>"
  let ?unknown = "?good\<lparr>action := ''short''\<rparr>"
  let ?w = "snd (TradingSignal_create ?good (store_of []))"
  have r: "reachable ?w"
    unfolding store_of_def by (intro reachable.created reachable.empty_table)
  have m: "map (\<lambda>sg. (id' sg, action sg, confidence sg, source sg, status sg)) (rows ?w) =
         [(''uuid-'', ''buy'', Fin 80, ''CYBER_METRICS'', Some ''pending'')]"
    by (simp add: TradingSignal_create_def uuidv4_def validate_def confidence_in_range_def
        ACTIONS_def SOURCES_def STATUSES_def store_of_def opinion_def example_uuids_def
        signal_attrs.truncate_def Let_def)
  have h: "\<not> confidence_in_range (confidence ?high) \<or> action ?high \<notin> set ACTIONS \<or>
           source ?high \<notin> set SOURCES"
    by (simp add: confidence_in_range_def)
  have u: "\<not> confidence_in_range (confidence ?unknown) \<or> action ?unknown \<notin> set ACTIONS \<or>
           source ?unknown \<notin> set SOURCES"
    by (simp add: ACTIONS_def)
  from store_keeps_schema [OF r] have
    a: "\<forall>sg \<in> set (rows ?w). (\<exists>c. confidence sg = Fin c \<and> 0 \<le> c \<and> c \<le> 100) \<and>
            action sg \<in> set ACTIONS \<and> source sg \<in> set SOURCES \<and>
            (\<exists>t \<in> set STATUSES. status sg = Some t)"
    and b: "\<forall>a. \<not> confidence_in_range (confidence a) \<or> action a \<notin> set ACTIONS \<or>
               source a \<notin> set SOURCES \<longrightarrow>
               fst (TradingSignal_create a ?w) = Inl SequelizeValidationError \<and>
               rows (snd (TradingSignal_create a ?w)) = rows ?w"
    by blast+
  have v: "list_all valid_row (rows ?w)"
    unfolding list_all_iff
  proof
    fix sg assume "sg \<in> set (rows ?w)"
    with a have "(\<exists>c. confidence sg = Fin c \<and> 0 \<le> c \<and> c \<le> 100) \<and>
            action sg \<in> set ACTIONS \<and> source sg \<in> set SOURCES \<and>
            (\<exists>t \<in> set STATUSES. status sg = Some t)" by blast
    then show "valid_row sg" by (auto simp: valid_row_def confidence_in_range_def)
  qed
  from b h have "fst (TradingSignal_create ?high ?w) = Inl SequelizeValidationError \<and>
               rows (snd (TradingSignal_create ?high ?w)) = rows ?w" by blast
  moreover from b u have "fst (TradingSignal_create ?unknown ?w) = Inl SequelizeValidationError \<and>
               rows (snd (TradingSignal_create ?unknown ?w)) = rows ?w" by blast
  ultimately show ?thesis using r m v unfolding Let_def by blast
qed

section \<open>Bounded retries of a trade job\<close>

lemma deliver_maxAttempts: "maxAttempts (deliver oc j) = maxAttempts j"
  by (cases oc) (simp_all add: deliver_def report_def take_job_def maxAttempts_def)

lemma deliver_job_ok: "job_ok j \<Longrightarrow> state j \<noteq> Running \<Longrightarrow> job_ok (deliver oc j)"
  by (cases oc)
    (auto simp: deliver_def report_def take_job_def job_ok_def maxAttempts_def split: if_splits)

lemma deliver_not_running: "state j \<noteq> Running \<Longrightarrow> state (deliver oc j) \<noteq> Running"
  by (cases oc) (auto simp: deliver_def report_def take_job_def)

lemma deliver_attempt:
  "state j = Queued \<Longrightarrow> attempt j \<le> attempt (deliver oc j)"
  by (cases oc) (auto simp: deliver_def report_def take_job_def)

lemma deliver_requeued:
  "state j = Queued \<Longrightarrow> state (deliver oc j) = Queued \<Longrightarrow>
   attempt (deliver oc j) = Suc (attempt j)"
  by (cases oc) (auto simp: deliver_def report_def take_job_def split: if_splits)

lemma deliver_all_job_ok:
  "job_ok j \<Longrightarrow> state j \<noteq> Running \<Longrightarrow>
   job_ok (deliver_all ocs j) \<and> state (deliver_all ocs j) \<noteq> Running \<and>
   maxAttempts (deliver_all ocs j) = maxAttempts j"
proof (induction ocs arbitrary: j)
  case Nil
  then show ?case by simp
next
  case (Cons oc ocs)
  from Cons.IH [OF deliver_job_ok [OF Cons.prems] deliver_not_running [OF Cons.prems(2)]]
  show ?case by (simp add: deliver_maxAttempts)
qed

lemma job_ok_attempt: "job_ok j \<Longrightarrow> attempt j \<le> maxAttempts j"
  by (auto simp: job_ok_def split: if_splits)

text \<open>Each delivery of a queued job that leaves it queued uses up one attempt.\<close>

lemma deliveries_bounded:
  "job_ok j \<Longrightarrow> state j \<noteq> Running \<Longrightarrow> deliveries ocs j + attempt j \<le> maxAttempts j"
proof (induction ocs arbitrary: j)
  case Nil
  then show ?case by (simp add: job_ok_attempt)
next
  case (Cons oc ocs)
  show ?case
  proof (cases "state j = Queued")
    case False
    with Cons.prems show ?thesis by (simp add: job_ok_attempt)
  next
    case True
    note ok = deliver_job_ok [OF Cons.prems, of oc]
    note nr = deliver_not_running [OF Cons.prems(2), of oc]
    from True Cons.prems(1) have lt: "attempt j < maxAttempts j" by (simp add: job_ok_def)
    show ?thesis
    proof (cases "state (deliver oc j) = Queued")
      case q: True
      from Cons.IH [OF ok nr] deliver_requeued [OF True q] True show ?thesis
        by (simp add: deliver_maxAttempts)
    next
      case nq: False
      then have "deliveries ocs (deliver oc j) = 0" by (cases ocs) simp_all
      with True lt show ?thesis by simp
    qed
  qed
qed

lemma admitted_job_ok:
  "1 \<le> attempts os \<Longrightarrow> job_ok (fst (queue_add name data os q))"
  by (simp add: queue_add_def job_ok_def maxAttempts_def Let_def)

lemma queueTrade_job:
  "admitted_trade tradeData h =
     \<lparr> job_id = Suc (length (trade_jobs h)),
       lane = ''trade-execution'', payload = tradeData, opts = trade_options,
       attempt = 0, delay = 0, state = Queued \<rparr>"
  by (cases "tradeQueue h")
    (simp_all add: admitted_trade_def trade_jobs_def queueTrade_def queue_add_def
      initialize_def Let_def)

lemma queueTrade_queue:
  "tradeQueue (snd (queueTrade tradeData h)) =
     Some (trade_jobs h @ [admitted_trade tradeData h])"
  by (cases "tradeQueue h")
    (simp_all add: admitted_trade_def trade_jobs_def queueTrade_def queue_add_def
      initialize_def Let_def)

lemma queueTrade_answer:
  "fst (queueTrade tradeData h) = QueuedJob (job_id (admitted_trade tradeData h)) ''queued''"
  by (cases "tradeQueue h")
    (simp_all add: admitted_trade_def trade_jobs_def queueTrade_def queue_add_def
      initialize_def Let_def)

lemma always_failing_trace:
  assumes "opts j = trade_options" and "attempt j = 0" and "state j = Queued"
  shows "map (\<lambda>ocs. (state (deliver_all ocs j), attempt (deliver_all ocs j)))
           [[], [HandlerFailed], [HandlerFailed, HandlerFailed],
            [HandlerFailed, HandlerFailed, HandlerFailed],
            [HandlerFailed, HandlerFailed, HandlerFailed, HandlerFailed]] =
         [(Queued, 0), (Queued, 1), (Queued, 2), (Exhausted, 3), (Exhausted, 3)]"
    and "deliveries [HandlerFailed, HandlerFailed, HandlerFailed, HandlerFailed] j = 3"
  using assms
  by (simp_all add: deliver_def report_def take_job_def maxAttempts_def trade_options_def)

text \<open>
  C8. A trade is admitted to the queue as a queued job with \<open>maxAttempts = 3\<close> and the
  exponential backoff policy. Whatever the outcomes of its deliveries are, its attempts
  never exceed its \<open>maxAttempts\<close> and it is delivered at most three times; a job that
  fails on every delivery goes \<open>queued \<rightarrow> queued(attempt 1) \<rightarrow> queued(attempt 2) \<rightarrow>
  exhausted\<close>, three deliveries, and stays exhausted. The bound on the attempts and the
  deliveries holds for every job that is admitted with \<open>maxAttempts \<ge> 1\<close>.
\<close>

theorem trade_job_retries_bounded:
  "(let j = admitted_trade tradeData h
    in fst (queueTrade tradeData h) = QueuedJob (job_id j) ''queued'' \<and>
       tradeQueue (snd (queueTrade tradeData h)) = Some (trade_jobs h @ [j]) \<and>
       state j = Queued \<and> attempt j = 0 \<and> maxAttempts j = 3 \<and>
       backoff_type (opts j) = ''exponential'' \<and> backoff_delay (opts j) = 1000 \<and>
       (\<forall>ocs. attempt (deliver_all ocs j) \<le> maxAttempts (deliver_all ocs j) \<and>
              maxAttempts (deliver_all ocs j) = 3 \<and> deliveries ocs j \<le> 3) \<and>
       map (\<lambda>ocs. (state (deliver_all ocs j), attempt (deliver_all ocs j)))
           [[], [HandlerFailed], [HandlerFailed, HandlerFailed],
            [HandlerFailed, HandlerFailed, HandlerFailed],
            [HandlerFailed, HandlerFailed, HandlerFailed, HandlerFailed]] =
         [(Queued, 0), (Queued, 1), (Queued, 2), (Exhausted, 3), (Exhausted, 3)] \<and>
       deliveries [HandlerFailed, HandlerFailed, HandlerFailed, HandlerFailed] j = 3) \<and>
   (\<forall>name data os q ocs.
      1 \<le> attempts os \<longrightarrow>
        (let j = fst (queue_add name data os q)
         in attempt (deliver_all ocs j) \<le> maxAttempts (deliver_all ocs j) \<and>
            maxAttempts (deliver_all ocs j) = attempts os \<and>
            deliveries ocs j \<le> attempts os))"
proof -
  let ?j = "admitted_trade tradeData h"
  note j = queueTrade_job [of tradeData h]
  have o: "opts ?j = trade_options" and a: "attempt ?j = 0" and s: "state ?j = Queued"
    by (simp_all add: j)
  have ok: "job_ok ?j" by (simp add: j job_ok_def maxAttempts_def trade_options_def)
  have nr: "state ?j \<noteq> Running" by (simp add: s)
  have m: "maxAttempts ?j = 3" by (simp add: j maxAttempts_def trade_options_def)
  have b: "\<forall>ocs. attempt (deliver_all ocs ?j) \<le> maxAttempts (deliver_all ocs ?j) \<and>
              maxAttempts (deliver_all ocs ?j) = 3 \<and> deliveries ocs ?j \<le> 3"
  proof
    fix ocs
    from deliver_all_job_ok [OF ok nr, of ocs] deliveries_bounded [OF ok nr, of ocs]
      job_ok_attempt [of "deliver_all ocs ?j"]
    show "attempt (deliver_all ocs ?j) \<le> maxAttempts (deliver_all ocs ?j) \<and>
              maxAttempts (deliver_all ocs ?j) = 3 \<and> deliveries ocs ?j \<le> 3"
      by (simp add: m)
  qed
  have r: "fst (queueTrade tradeData h) = QueuedJob (job_id ?j) ''queued''"
    by (rule queueTrade_answer)
  have q: "tradeQueue (snd (queueTrade tradeData h)) = Some (trade_jobs h @ [?j])"
    by (rule queueTrade_queue)
  have p: "backoff_type (opts ?j) = ''exponential''" "backoff_delay (opts ?j) = 1000"
    by (simp_all add: o trade_options_def)
  have first: "fst (queueTrade tradeData h) = QueuedJob (job_id ?j) ''queued'' \<and>
       tradeQueue (snd (queueTrade tradeData h)) = Some (trade_jobs h @ [?j]) \<and>
       state ?j = Queued \<and> attempt ?j = 0 \<and> maxAttempts ?j = 3 \<and>
       backoff_type (opts ?j) = ''exponential'' \<and> backoff_delay (opts ?j) = 1000 \<and>
       (\<forall>ocs. attempt (deliver_all ocs ?j) \<le> maxAttempts (deliver_all ocs ?j) \<and>
              maxAttempts (deliver_all ocs ?j) = 3 \<and> deliveries ocs ?j \<le> 3) \<and>
       map (\<lambda>ocs. (state (deliver_all ocs ?j), attempt (deliver_all ocs ?j)))
           [[], [HandlerFailed], [HandlerFailed, HandlerFailed],
            [HandlerFailed, HandlerFailed, HandlerFailed],
            [HandlerFailed, HandlerFailed, HandlerFailed, HandlerFailed]] =
         [(Queued, 0), (Queued, 1), (Queued, 2), (Exhausted, 3), (Exhausted, 3)] \<and>
       deliveries [HandlerFailed, HandlerFailed, HandlerFailed, HandlerFailed] ?j = 3"
    using r q s a m p b always_failing_trace [OF o a s] by (intro conjI)
  have second: "\<forall>name data os (q :: 'b job list) ocs.
      1 \<le> attempts os \<longrightarrow>
        (let j = fst (queue_add name data os q)
         in attempt (deliver_all ocs j) \<le> maxAttempts (deliver_all ocs j) \<and>
            maxAttempts (deliver_all ocs j) = attempts os \<and>
            deliveries ocs j \<le> attempts os)"
  proof (intro allI impI)
    fix name and data :: 'b and os :: job_options and q :: "'b job list" and ocs
    assume 1: "1 \<le> attempts os"
    let ?k = "fst (queue_add name data os q)"
    have ok': "job_ok ?k" by (rule admitted_job_ok [OF 1])
    have nr': "state ?k \<noteq> Running" by (simp add: queue_add_def Let_def)
    have m': "maxAttempts ?k = attempts os" by (simp add: queue_add_def maxAttempts_def Let_def)
    from deliver_all_job_ok [OF ok' nr', of ocs] deliveries_bounded [OF ok' nr', of ocs]
      job_ok_attempt [of "deliver_all ocs ?k"]
    show "let j = ?k
         in attempt (deliver_all ocs j) \<le> maxAttempts (deliver_all ocs j) \<and>
            maxAttempts (deliver_all ocs j) = attempts os \<and>
            deliveries ocs j \<le> attempts os"
      by (simp add: Let_def m')
  qed
  from first second show ?thesis unfolding Let_def by blast
qed

theorem trade_job_retries_bounded_witness:
  "(let os = \<lparr> priority = 2, attempts = 2, backoff_type = ''fixed'', backoff_delay = 2000 \<rparr>;
        j = fst (queue_add ''market-analysis'' ''BTC'' os []);
        ocs = [HandlerFailed, HandlerFailed, HandlerSucceeded]
    in 1 \<le> attempts os \<and>
       state (deliver_all ocs j) = Exhausted \<and> attempt (deliver_all ocs j) = 2 \<and>
       attempt (deliver_all ocs j) \<le> maxAttempts (deliver_all ocs j) \<and>
       deliveries ocs j = 2 \<and> deliveries ocs j \<le> attempts os)"
proof -
  let ?os = "\<lparr> priority = 2, attempts = 2, backoff_type = ''fixed'', backoff_delay = 2000 \<rparr>"
  let ?j = "fst (queue_add ''market-analysis'' ''BTC'' ?os [])"
  let ?ocs = "[HandlerFailed, HandlerFailed, HandlerSucceeded]"
  have 1: "1 \<le> attempts ?os" by simp
  have e: "state (deliver_all ?ocs ?j) = Exhausted" "attempt (deliver_all ?ocs ?j) = 2"
    "deliveries ?ocs ?j = 2"
    by (simp_all add: queue_add_def deliver_def report_def take_job_def maxAttempts_def Let_def)
  note t = trade_job_retries_bounded [of "''BTC''" "\<lparr>tradeQueue = None\<rparr>",
      THEN conjunct2, rule_format]
  have "let j = ?j
        in attempt (deliver_all ?ocs j) \<le> maxAttempts (deliver_all ?ocs j) \<and>
           maxAttempts (deliver_all ?ocs j) = attempts ?os \<and>
           deliveries ?ocs j \<le> attempts ?os"
    by (rule t [OF 1])
  then have "attempt (deliver_all ?ocs ?j) \<le> maxAttempts (deliver_all ?ocs ?j) \<and>
            maxAttempts (deliver_all ?ocs ?j) = attempts ?os \<and>
            deliveries ?ocs ?j \<le> attempts ?os"
    unfolding Let_def .
  with 1 e show ?thesis unfolding Let_def by simp
qed

end
